theory Spec2Isabelle
  imports Main
begin

section \<open>Values of the service\<close>

text \<open>
  The service of \<^verbatim>\<open>TranscriptFetch.py\<close> handles Python values that come from decoded JSON
  (the player response of the metadata client) and builds dictionaries that it hands to
  \<^verbatim>\<open>jsonify\<close>. A dictionary is an association list in insertion order, read with
  \<open>map_of\<close>. Python floats are not modelled: the float type is the parameter \<open>'f\<close>, and
  the three operations the code applies to floats are fields of the record \<open>world\<close> below.
\<close>

datatype 'f json =
    JNull
  | JBool bool
  | JInt int
  | JFloat 'f
  | JStr string
  | JArr "'f json list"
  | JObj "(string \<times> 'f json) list"

text \<open>
  The exceptions that the operations of the handler raise themselves, and
  \<open>LibraryError\<close> for whatever an external library raises (the metadata client, the HTTP
  client, the XML parser). All of them are instances of Python's \<^verbatim>\<open>Exception\<close>.
\<close>

datatype 'f exc =
    AttributeError "'f json" string
  | KeyError "'f json"
  | IndexError
  | TypeError "'f json"
  | ValueError string
  | LibraryError string

text \<open>An element of \<^verbatim>\<open>xml.etree.ElementTree\<close>: tag, attributes, text, children.\<close>

datatype element =
  Element (tag: string) (attrib: "(string \<times> string) list") (elem_text: "string option")
    (children: "element list")

text \<open>
  What the handler cannot compute by itself. \<open>player\<close> stands for lines 70 and 73 (the
  client is built and asked for the video), \<open>requests_get\<close> for lines 136 and 137 (the text
  of the downloaded document), \<open>fromstring\<close> for \<^verbatim>\<open>ET.fromstring\<close>. \<open>float_of_str\<close> is
  \<^verbatim>\<open>float\<close> on a string (\<open>None\<close> where it raises \<^verbatim>\<open>ValueError\<close>), \<open>float_of_zero\<close> is
  \<^verbatim>\<open>float(0)\<close>, \<open>float_truthy\<close> the truth value of a float, and \<open>exc_str\<close> is \<^verbatim>\<open>str\<close> on
  an exception.
\<close>

record 'f world =
  player :: "string \<Rightarrow> 'f exc + 'f json"
  requests_get :: "'f json \<Rightarrow> 'f exc + string"
  fromstring :: "string \<Rightarrow> 'f exc + element"
  float_of_str :: "string \<Rightarrow> 'f option"
  float_of_zero :: 'f
  float_truthy :: "'f \<Rightarrow> bool"
  exc_str :: "'f exc \<Rightarrow> string"

text \<open>
  A request as the handler reads it: \<^verbatim>\<open>request.headers\<close> and \<^verbatim>\<open>request.args\<close>, each read
  with \<^verbatim>\<open>get\<close>, which returns the first value stored under the name. Header names are
  stored the way the framework normalises them.
\<close>

record request =
  path :: string
  http_method :: string
  headers :: "(string \<times> string) list"
  args :: "(string \<times> string) list"

record 'f response =
  status :: nat
  body :: "'f json"

text \<open>
  The process: the module-level \<^verbatim>\<open>API_KEY = os.getenv("API_KEY")\<close> (\<open>None\<close> when the
  variable is unset) and the lines written by \<^verbatim>\<open>logging.error\<close>.
\<close>

record server =
  API_KEY :: "string option"
  log :: "string list"

section \<open>Python operations\<close>

definition andThen :: "'e + 'a \<Rightarrow> ('a \<Rightarrow> 'e + 'b) \<Rightarrow> 'e + 'b" where
  "andThen m f = (case m of Inl e \<Rightarrow> Inl e | Inr x \<Rightarrow> f x)"

text \<open>\<^verbatim>\<open>x.get(k, d)\<close>: only a dictionary has the method.\<close>

fun py_get :: "'f json \<Rightarrow> string \<Rightarrow> 'f json \<Rightarrow> 'f exc + 'f json" where
  "py_get (JObj kvs) k d = (case map_of kvs k of None \<Rightarrow> Inr d | Some v \<Rightarrow> Inr v)"
| "py_get x k d = Inl (AttributeError x ''get'')"

text \<open>\<^verbatim>\<open>x["k"]\<close> with a string key.\<close>

fun subscript :: "'f json \<Rightarrow> string \<Rightarrow> 'f exc + 'f json" where
  "subscript (JObj kvs) k = (case map_of kvs k of None \<Rightarrow> Inl (KeyError (JStr k)) | Some v \<Rightarrow> Inr v)"
| "subscript x k = Inl (TypeError x)"

text \<open>\<^verbatim>\<open>x[-1]\<close>: the last item of a list or string; a dictionary has no key \<open>-1\<close>.\<close>

fun subscript_last :: "'f json \<Rightarrow> 'f exc + 'f json" where
  "subscript_last (JArr xs) = (if xs = [] then Inl IndexError else Inr (last xs))"
| "subscript_last (JStr s) = (if s = [] then Inl IndexError else Inr (JStr [last s]))"
| "subscript_last (JObj kvs) = Inl (KeyError (JInt (- 1)))"
| "subscript_last x = Inl (TypeError x)"

text \<open>The truth value of a value in \<^verbatim>\<open>if x\<close> and \<^verbatim>\<open>if not x\<close>.\<close>

fun truthy :: "'f world \<Rightarrow> 'f json \<Rightarrow> bool" where
  "truthy w JNull = False"
| "truthy w (JBool b) = b"
| "truthy w (JInt i) = (i \<noteq> 0)"
| "truthy w (JFloat x) = float_truthy w x"
| "truthy w (JStr s) = (s \<noteq> [])"
| "truthy w (JArr xs) = (xs \<noteq> [])"
| "truthy w (JObj kvs) = (kvs \<noteq> [])"

text \<open>\<^verbatim>\<open>for c in x\<close>: the items of a list, the characters of a string, the keys of a dictionary.\<close>

fun py_iter :: "'f json \<Rightarrow> 'f exc + 'f json list" where
  "py_iter (JArr xs) = Inr xs"
| "py_iter (JStr s) = Inr (map (\<lambda>c. JStr [c]) s)"
| "py_iter (JObj kvs) = Inr (map (\<lambda>kv. JStr (fst kv)) kvs)"
| "py_iter x = Inl (TypeError x)"

text \<open>\<^verbatim>\<open>str.lower\<close> on the letters A to Z; every other character is kept.\<close>

definition lower_char :: "char \<Rightarrow> char" where
  "lower_char c =
     (case map_of (zip ''ABCDEFGHIJKLMNOPQRSTUVWXYZ'' ''abcdefghijklmnopqrstuvwxyz'') c of
        None \<Rightarrow> c | Some d \<Rightarrow> d)"

definition py_lower :: "string \<Rightarrow> string" where
  "py_lower s = map lower_char s"

text \<open>\<^verbatim>\<open>sep.join(xs)\<close>.\<close>

fun py_join :: "string \<Rightarrow> string list \<Rightarrow> string" where
  "py_join sep [] = []"
| "py_join sep [x] = x"
| "py_join sep (x # y # ys) = x @ sep @ py_join sep (y # ys)"

text \<open>
  \<^verbatim>\<open>s.replace(old, new)\<close> for a non-empty \<open>old\<close>: the occurrences are found from the left
  and do not overlap. (The handler calls it with the two non-empty constants only;
  for an empty \<open>old\<close> the function returns \<open>s\<close>.)
\<close>

function py_replace :: "string \<Rightarrow> string \<Rightarrow> string \<Rightarrow> string" where
  "py_replace old new [] = []"
| "py_replace old new (c # cs) =
     (if old \<noteq> [] \<and> take (length old) (c # cs) = old
      then new @ py_replace old new (drop (length old) (c # cs))
      else c # py_replace old new cs)"
  by pat_completeness auto
termination
  by (relation "measure (\<lambda>(old, new, s). length s)") (auto simp: neq_Nil_conv)

section \<open>The API key\<close>

text \<open>Lines 16 to 21.\<close>

definition validate_api_key :: "server \<Rightarrow> request \<Rightarrow> bool" where
  "validate_api_key srv req =
     (let provided_key = map_of (headers req) ''x-api-key''
      in provided_key = API_KEY srv)"

definition unauthorized :: "'f response" where
  "unauthorized =
     \<lparr>status = 403, body = JObj [(''error'', JStr ''Unauthorized access. Invalid API key.'')]\<rparr>"

text \<open>Lines 24 to 30: the hook returns a response, or nothing (\<open>None\<close>).\<close>

definition enforce_api_key :: "server \<Rightarrow> request \<Rightarrow> 'f response option" where
  "enforce_api_key srv req =
     (if \<not> validate_api_key srv req then Some unauthorized else None)"

section \<open>The two views\<close>

text \<open>Lines 33 to 52: the body that \<^verbatim>\<open>home\<close> returns, with status 200.\<close>

definition home :: "'f response" where
  "home =
     \<lparr>status = 200,
      body = JObj
        [(''message'', JStr ''Welcome to the YouTube Caption API Service.''),
         (''endpoints'', JObj
           [(''/captions'', JObj
              [(''description'', JStr ''Fetch and parse captions for a YouTube video.''),
               (''parameters'', JObj
                  [(''video_id'', JStr ''Required. The YouTube video ID.''),
                   (''language'', JStr
                      ''Optional. The language code to fetch captions in a specific language.''),
                   (''timestamps'', JStr
                      ''Optional. Set to 'true' to include timestamps in the response.'')]),
               (''notes'', JStr
                  ''If the 'language' parameter is not provided, the API returns available languages for the video.'')])]),
         (''status'', JStr ''API is operational.'')]\<rparr>"

record 'f metadata =
  video_title :: "'f json"
  thumbnail :: "'f json"
  channel_name :: "'f json"
  channel_logo :: "'f json"

text \<open>Lines 79 and 89: \<^verbatim>\<open>xs[-1]["url"] if xs else default\<close>.\<close>

definition last_url :: "'f world \<Rightarrow> 'f json \<Rightarrow> string \<Rightarrow> 'f exc + 'f json" where
  "last_url w xs dflt =
     (if truthy w xs then andThen (subscript_last xs) (\<lambda>t. subscript t ''url'')
      else Inr (JStr dflt))"

text \<open>Lines 74 to 89, in the order of the source.\<close>

definition video_metadata :: "'f world \<Rightarrow> 'f json \<Rightarrow> 'f exc + 'f metadata" where
  "video_metadata w player_data =
     andThen (py_get player_data ''videoDetails'' (JObj [])) (\<lambda>video_details.
     andThen (py_get video_details ''title'' (JStr ''Unknown Title'')) (\<lambda>title.
     andThen (py_get video_details ''thumbnail'' (JObj [])) (\<lambda>t.
     andThen (py_get t ''thumbnails'' (JArr [])) (\<lambda>thumbnails.
     andThen (last_url w thumbnails ''No Thumbnail Available'') (\<lambda>thumb.
     andThen (py_get video_details ''author'' (JStr ''Unknown Channel'')) (\<lambda>author.
     andThen (py_get video_details ''channelThumbnailSupportedRenderers'' (JObj [])) (\<lambda>r1.
     andThen (py_get r1 ''channelThumbnailWithLinkRenderer'' (JObj [])) (\<lambda>r2.
     andThen (py_get r2 ''thumbnail'' (JObj [])) (\<lambda>r3.
     andThen (py_get r3 ''thumbnails'' (JArr [])) (\<lambda>channel_thumbnails.
     andThen (last_url w channel_thumbnails ''No Channel Logo Available'') (\<lambda>logo.
     Inr \<lparr>video_title = title, thumbnail = thumb, channel_name = author,
          channel_logo = logo\<rparr>)))))))))))"

text \<open>Line 91.\<close>

definition caption_tracks :: "'f json \<Rightarrow> 'f exc + 'f json" where
  "caption_tracks player_data =
     andThen (py_get player_data ''captions'' (JObj [])) (\<lambda>c1.
     andThen (py_get c1 ''playerCaptionsTracklistRenderer'' (JObj [])) (\<lambda>c2.
     py_get c2 ''captionTracks'' (JArr [])))"

text \<open>Lines 104 to 110: the comprehension stops at the first track that raises.\<close>

fun available_languages :: "'f json list \<Rightarrow> 'f exc + 'f json list" where
  "available_languages [] = Inr []"
| "available_languages (caption # rest) =
     andThen (subscript caption ''languageCode'') (\<lambda>code.
     andThen (subscript caption ''name'') (\<lambda>n.
     andThen (subscript n ''simpleText'') (\<lambda>simple.
     andThen (available_languages rest) (\<lambda>others.
     Inr (JObj [(''languageCode'', code), (''name'', simple)] # others)))))"

text \<open>
  Lines 121 to 124: \<^verbatim>\<open>next\<close> takes the first track whose language code is the selected
  one and does not look at the tracks after it.
\<close>

fun select_caption :: "'f json list \<Rightarrow> string \<Rightarrow> 'f exc + 'f json option" where
  "select_caption [] selected_language = Inr None"
| "select_caption (c # cs) selected_language =
     andThen (subscript c ''languageCode'') (\<lambda>code.
     if code = JStr selected_language then Inr (Some c)
     else select_caption cs selected_language)"

record 'f caption =
  start :: 'f
  duration :: 'f
  caption_text :: string

text \<open>Lines 143 and 144: \<^verbatim>\<open>float(text.attrib.get(name, 0))\<close>.\<close>

definition attrib_float :: "'f world \<Rightarrow> element \<Rightarrow> string \<Rightarrow> 'f exc + 'f" where
  "attrib_float w e name =
     (case map_of (attrib e) name of
        None \<Rightarrow> Inr (float_of_zero w)
      | Some s \<Rightarrow> (case float_of_str w s of None \<Rightarrow> Inl (ValueError s) | Some x \<Rightarrow> Inr x))"

text \<open>Line 145: \<^verbatim>\<open>text.text or ""\<close>.\<close>

definition text_or_empty :: "element \<Rightarrow> string" where
  "text_or_empty e = (case elem_text e of None \<Rightarrow> [] | Some s \<Rightarrow> if s \<noteq> [] then s else [])"

text \<open>\<^verbatim>\<open>root.findall(name)\<close> with a plain tag name: the children of that tag, in order.\<close>

definition findall :: "element \<Rightarrow> string \<Rightarrow> element list" where
  "findall root name = filter (\<lambda>e. tag e = name) (children root)"

text \<open>Lines 141 to 148, over the elements that \<open>findall\<close> returned.\<close>

fun parse_elements :: "'f world \<Rightarrow> element list \<Rightarrow> 'f exc + 'f caption list" where
  "parse_elements w [] = Inr []"
| "parse_elements w (e # es) =
     andThen (attrib_float w e ''start'') (\<lambda>s.
     andThen (attrib_float w e ''dur'') (\<lambda>d.
     andThen (parse_elements w es) (\<lambda>others.
     Inr (\<lparr>start = s, duration = d, caption_text = text_or_empty e\<rparr> # others))))"

definition parsed_captions :: "'f world \<Rightarrow> element \<Rightarrow> 'f exc + 'f caption list" where
  "parsed_captions w root = parse_elements w (findall root ''text'')"

definition caption_json :: "'f caption \<Rightarrow> 'f json" where
  "caption_json c =
     JObj [(''start'', JFloat (start c)), (''duration'', JFloat (duration c)),
           (''text'', JStr (caption_text c))]"

text \<open>Lines 163 to 168.\<close>

definition concatenated_text :: "'f caption list \<Rightarrow> string" where
  "concatenated_text captions =
     py_replace [CHR 0x0A] ''  ''
       (py_replace ''&#39;'' '' ; ''
          (py_join '' '' (map caption_text (filter (\<lambda>c. caption_text c \<noteq> []) captions))))"

definition metadata_fields :: "'f metadata \<Rightarrow> (string \<times> 'f json) list" where
  "metadata_fields md =
     [(''video_title'', video_title md), (''thumbnail'', thumbnail md),
      (''channel_name'', channel_name md), (''channel_logo'', channel_logo md)]"

text \<open>Lines 104 to 118: no language was selected.\<close>

definition languages_response ::
  "string \<Rightarrow> 'f metadata \<Rightarrow> 'f json \<Rightarrow> 'f exc + 'f response" where
  "languages_response video_id md captions =
     andThen (py_iter captions) (\<lambda>tracks.
     andThen (available_languages tracks) (\<lambda>langs.
     Inr \<lparr>status = 200,
          body = JObj ((''video_id'', JStr video_id) # metadata_fields md @
                       [(''available_languages'', JArr langs)])\<rparr>))"

text \<open>Lines 150 to 178: the two presentations of the parsed captions.\<close>

definition presentation ::
  "string \<Rightarrow> 'f metadata \<Rightarrow> string \<Rightarrow> bool \<Rightarrow> 'f caption list \<Rightarrow> 'f response" where
  "presentation video_id md selected_language timestamps parsed =
     (if timestamps then
        \<lparr>status = 200,
         body = JObj ((''video_id'', JStr video_id) # metadata_fields md @
                      [(''languageCode'', JStr selected_language),
                       (''timestamped_captions'', JArr (map caption_json parsed))])\<rparr>
      else
        \<lparr>status = 200,
         body = JObj ((''video_id'', JStr video_id) # metadata_fields md @
                      [(''languageCode'', JStr selected_language),
                       (''captions'', JStr (concatenated_text parsed))])\<rparr>)"

text \<open>Lines 121 to 178: a language was selected.\<close>

definition selected_response ::
  "'f world \<Rightarrow> string \<Rightarrow> 'f metadata \<Rightarrow> 'f json \<Rightarrow> string \<Rightarrow> bool \<Rightarrow> 'f exc + 'f response" where
  "selected_response w video_id md captions selected_language timestamps =
     andThen (py_iter captions) (\<lambda>tracks.
     andThen (select_caption tracks selected_language) (\<lambda>selected_caption.
     case selected_caption of
       None \<Rightarrow>
         Inr \<lparr>status = 404,
              body = JObj ((''error'', JStr (''No captions available for the selected language: ''
                                             @ selected_language)) # metadata_fields md)\<rparr>
     | Some c \<Rightarrow>
         if \<not> truthy w c then
           Inr \<lparr>status = 404,
                body = JObj ((''error'', JStr (''No captions available for the selected language: ''
                                               @ selected_language)) # metadata_fields md)\<rparr>
         else
           andThen (subscript c ''baseUrl'') (\<lambda>url.
           andThen (requests_get w url) (\<lambda>raw_captions.
           andThen (fromstring w raw_captions) (\<lambda>root.
           andThen (parsed_captions w root) (\<lambda>parsed.
           Inr (presentation video_id md selected_language timestamps parsed)))))))"

text \<open>Lines 69 to 178: the body of the \<^verbatim>\<open>try\<close> statement.\<close>

definition get_captions_try ::
  "'f world \<Rightarrow> string \<Rightarrow> string option \<Rightarrow> bool \<Rightarrow> 'f exc + 'f response" where
  "get_captions_try w video_id selected_language timestamps =
     andThen (player w video_id) (\<lambda>player_data.
     andThen (video_metadata w player_data) (\<lambda>md.
     andThen (caption_tracks player_data) (\<lambda>captions.
     if \<not> truthy w captions then
       Inr \<lparr>status = 404,
            body = JObj ((''error'', JStr ''No captions available for this video.'')
                         # metadata_fields md)\<rparr>
     else
       (case selected_language of
          None \<Rightarrow> languages_response video_id md captions
        | Some lang \<Rightarrow>
            if lang = [] then languages_response video_id md captions
            else selected_response w video_id md captions lang timestamps))))"

text \<open>
  Lines 56 to 182: the view \<^verbatim>\<open>get_captions\<close>. It returns the response and the lines it
  logs.
\<close>

definition timestamps_flag :: "request \<Rightarrow> bool" where
  "timestamps_flag req =
     (py_lower (case map_of (args req) ''timestamps'' of None \<Rightarrow> ''false'' | Some v \<Rightarrow> v)
        = ''true'')"

definition get_captions :: "'f world \<Rightarrow> request \<Rightarrow> 'f response \<times> string list" where
  "get_captions w req =
     (let video_id = map_of (args req) ''video_id'';
          selected_language = map_of (args req) ''language'';
          timestamps = timestamps_flag req;
          missing = (\<lparr>status = 400, body = JObj [(''error'', JStr ''Missing video_id parameter'')]\<rparr>, [])
      in case video_id of
           None \<Rightarrow> missing
         | Some vid \<Rightarrow>
             if vid = [] then missing
             else (case get_captions_try w vid selected_language timestamps of
                     Inr r \<Rightarrow> (r, [])
                   | Inl e \<Rightarrow>
                       (\<lparr>status = 500, body = JObj [(''error'', JStr (exc_str w e))]\<rparr>,
                        [''Error while fetching captions for video_id '' @ vid @ '': ''
                           @ exc_str w e])))"

section \<open>The application\<close>

text \<open>
  The rules of the application, in the order of their registration.
  \<^verbatim>\<open>Flask(__name__)\<close>, line 8, keeps the default static folder, so the framework
  registers \<^verbatim>\<open>/static/<path:filename>\<close> with its own view \<^verbatim>\<open>send_static_file\<close>; the two
  \<^verbatim>\<open>app.route\<close> decorators, lines 33 and 55, register \<^verbatim>\<open>/\<close> with \<^verbatim>\<open>home\<close> and
  \<^verbatim>\<open>/captions\<close> with \<^verbatim>\<open>get_captions\<close>. All three are registered for GET; the framework
  adds HEAD and answers OPTIONS by itself.
\<close>

datatype endpoint = Static | Home | Get_captions

text \<open>
  A rule is a fixed path, or a prefix followed by a \<^verbatim>\<open>path\<close> converter, which takes the
  rest of the path when it is not empty and does not start with a slash.
\<close>

datatype rule = Exact string | Under string

fun match_rule :: "rule \<Rightarrow> string \<Rightarrow> string option" where
  "match_rule (Exact r) p = (if p = r then Some [] else None)"
| "match_rule (Under prefix) p =
     (if take (length prefix) p = prefix then
        (case drop (length prefix) p of
           [] \<Rightarrow> None
         | c # cs \<Rightarrow> if c = CHR ''/'' then None else Some (c # cs))
      else None)"

definition url_map :: "(rule \<times> string list \<times> endpoint) list" where
  "url_map =
     [(Under ''/static/'', [''GET''], Static),
      (Exact ''/'', [''GET''], Home),
      (Exact ''/captions'', [''GET''], Get_captions)]"

text \<open>The first rule that matches a path, with the value of its converter.\<close>

fun match_rules ::
  "(rule \<times> string list \<times> endpoint) list \<Rightarrow> string \<Rightarrow> (string list \<times> endpoint \<times> string) option" where
  "match_rules [] p = None"
| "match_rules ((rule, methods, ep) # rules) p =
     (case match_rule rule p of
        Some filename \<Rightarrow> Some (methods, ep, filename)
      | None \<Rightarrow> match_rules rules p)"

text \<open>
  What the application answers: the response of a view of this file or of the hook, or
  one of the framework's own answers. \<open>StaticFile\<close> stands for what
  \<^verbatim>\<open>send_static_file\<close> answers for a file name, and \<open>NoRule\<close> for what the framework
  answers when no rule matches the path as it is written (not found, or a redirect to
  the path with its repeated slashes merged).
\<close>

datatype 'f reply =
  Reply "'f response" | StaticFile string | NoRule | MethodNotAllowed | AutomaticOptions

definition view_functions ::
  "'f world \<Rightarrow> endpoint \<Rightarrow> string \<Rightarrow> request \<Rightarrow> 'f reply \<times> string list" where
  "view_functions w ep filename req =
     (case ep of
        Static \<Rightarrow> (StaticFile filename, [])
      | Home \<Rightarrow> (Reply home, [])
      | Get_captions \<Rightarrow> (case get_captions w req of (r, lines) \<Rightarrow> (Reply r, lines)))"

definition dispatch_request :: "'f world \<Rightarrow> request \<Rightarrow> 'f reply \<times> string list" where
  "dispatch_request w req =
     (case match_rules url_map (path req) of
        None \<Rightarrow> (NoRule, [])
      | Some (methods, ep, filename) \<Rightarrow>
          if http_method req \<in> set methods \<or> http_method req = ''HEAD'' then
            view_functions w ep filename req
          else if http_method req = ''OPTIONS'' then (AutomaticOptions, [])
          else (MethodNotAllowed, []))"

text \<open>
  \<^verbatim>\<open>app.before_request\<close>, line 24: the hook runs before the request is dispatched, and a
  response it returns is the answer; the request is then not dispatched.
\<close>

definition full_dispatch_request ::
  "(request \<Rightarrow> 'f response option) \<Rightarrow> (request \<Rightarrow> 'f reply \<times> string list) \<Rightarrow> request
     \<Rightarrow> 'f reply \<times> string list" where
  "full_dispatch_request before_request dispatch req =
     (case before_request req of Some rv \<Rightarrow> (Reply rv, []) | None \<Rightarrow> dispatch req)"

definition wsgi_app :: "'f world \<Rightarrow> server \<Rightarrow> request \<Rightarrow> 'f reply \<times> server" where
  "wsgi_app w srv req =
     (case full_dispatch_request (enforce_api_key srv) (dispatch_request w) req of
        (r, lines) \<Rightarrow> (r, srv\<lparr>log := log srv @ lines\<rparr>))"

section \<open>An example world\<close>

text \<open>
  The theorems below hold in every world. Their examples are evaluated in one world, in
  which a float is named by the literal it was read from. \<open>float_literal\<close> recognises
  the strings that Python's \<^verbatim>\<open>float\<close> accepts: surrounding ASCII white space, a sign, then
  \<^verbatim>\<open>inf\<close>, \<^verbatim>\<open>infinity\<close> or \<^verbatim>\<open>nan\<close> in any case, or a decimal number with an optional
  exponent, whose digits may be grouped by single underscores. On every other string
  \<^verbatim>\<open>float\<close> raises \<^verbatim>\<open>ValueError\<close>.
\<close>

definition is_space :: "char \<Rightarrow> bool" where
  "is_space c =
     (c \<in> set [CHR '' '', CHR 0x09, CHR 0x0A, CHR 0x0B, CHR 0x0C, CHR 0x0D,
                CHR 0x1C, CHR 0x1D, CHR 0x1E, CHR 0x1F])"

definition py_strip :: "string \<Rightarrow> string" where
  "py_strip s = rev (dropWhile is_space (rev (dropWhile is_space s)))"

definition is_digit :: "char \<Rightarrow> bool" where
  "is_digit c = (c \<in> set ''0123456789'')"

fun digits_tail :: "string \<Rightarrow> string" where
  "digits_tail (c # d # cs) =
     (if is_digit c then digits_tail (d # cs)
      else if c = CHR ''_'' \<and> is_digit d then digits_tail cs
      else c # d # cs)"
| "digits_tail [c] = (if is_digit c then [] else [c])"
| "digits_tail [] = []"

definition digitpart :: "string \<Rightarrow> string option" where
  "digitpart s =
     (case s of [] \<Rightarrow> None | c # cs \<Rightarrow> if is_digit c then Some (digits_tail cs) else None)"

definition after_mantissa :: "string \<Rightarrow> string option" where
  "after_mantissa s =
     (case digitpart s of
        Some r \<Rightarrow>
          (case r of
             [] \<Rightarrow> Some []
           | c # r' \<Rightarrow>
               if c = CHR ''.'' then (case digitpart r' of None \<Rightarrow> Some r' | Some r'' \<Rightarrow> Some r'')
               else Some r)
      | None \<Rightarrow>
          (case s of [] \<Rightarrow> None | c # r \<Rightarrow> if c = CHR ''.'' then digitpart r else None))"

definition exponent_ok :: "string \<Rightarrow> bool" where
  "exponent_ok r =
     (case r of
        [] \<Rightarrow> True
      | e # r' \<Rightarrow>
          (e = CHR ''e'' \<or> e = CHR ''E'') \<and>
          (case r' of
             [] \<Rightarrow> False
           | sg # r'' \<Rightarrow>
               digitpart (if sg = CHR ''+'' \<or> sg = CHR ''-'' then r'' else r') = Some []))"

definition unsigned_literal :: "string \<Rightarrow> bool" where
  "unsigned_literal s =
     (py_lower s \<in> set [''inf'', ''infinity'', ''nan''] \<or>
      (case after_mantissa s of None \<Rightarrow> False | Some r \<Rightarrow> exponent_ok r))"

definition float_literal :: "string \<Rightarrow> bool" where
  "float_literal s =
     (case py_strip s of
        [] \<Rightarrow> False
      | c # cs \<Rightarrow>
          if c = CHR ''+'' \<or> c = CHR ''-'' then unsigned_literal cs else unsigned_literal (c # cs))"

definition example_float :: "string \<Rightarrow> string option" where
  "example_float s = (if float_literal s then Some (py_strip s) else None)"

text \<open>
  The message of an exception: the key in quotes for a \<^verbatim>\<open>KeyError\<close>, the library's
  message for a library's exception, the name of the class for the others.
\<close>

definition example_str :: "string exc \<Rightarrow> string" where
  "example_str e =
     (case e of
        KeyError k \<Rightarrow> (case k of JStr s \<Rightarrow> [CHR 0x27] @ s @ [CHR 0x27] | _ \<Rightarrow> ''-1'')
      | LibraryError m \<Rightarrow> m
      | ValueError s \<Rightarrow> ''could not convert string to float: '' @ [CHR 0x27] @ s @ [CHR 0x27]
      | AttributeError x a \<Rightarrow> ''AttributeError''
      | TypeError x \<Rightarrow> ''TypeError''
      | IndexError \<Rightarrow> ''IndexError'')"

text \<open>
  One video, \<^verbatim>\<open>abc123\<close>, with three caption tracks. The English track is served at
  \<^verbatim>\<open>https://captions.example/en\<close> as a document of three \<^verbatim>\<open>text\<close> elements and one
  other element; the German track is served as a document of two plain texts; the
  download of the French track fails.
\<close>

definition example_track :: "string \<Rightarrow> string \<Rightarrow> string json" where
  "example_track code name =
     JObj [(''baseUrl'', JStr (''https://captions.example/'' @ code)),
           (''languageCode'', JStr code),
           (''name'', JObj [(''simpleText'', JStr name)])]"

definition example_tracks :: "string json list" where
  "example_tracks =
     [example_track ''en'' ''English'', example_track ''fr'' ''French'',
      example_track ''de'' ''German'']"

definition example_player_data :: "string json" where
  "example_player_data =
     JObj [(''videoDetails'', JObj
              [(''title'', JStr ''A talk''),
               (''author'', JStr ''A channel''),
               (''thumbnail'', JObj [(''thumbnails'', JArr
                  [JObj [(''url'', JStr ''https://img.example/small.jpg'')],
                   JObj [(''url'', JStr ''https://img.example/large.jpg'')]])])]),
           (''captions'', JObj [(''playerCaptionsTracklistRenderer'', JObj
              [(''captionTracks'', JArr example_tracks)])])]"

definition example_metadata :: "string metadata" where
  "example_metadata =
     \<lparr>video_title = JStr ''A talk'', thumbnail = JStr ''https://img.example/large.jpg'',
      channel_name = JStr ''A channel'', channel_logo = JStr ''No Channel Logo Available''\<rparr>"

definition example_document :: element where
  "example_document =
     Element ''transcript'' [] None
       [Element ''text'' [(''start'', ''0.5''), (''dur'', ''2'')] (Some ''it&#39;s'') [],
        Element ''head'' [] None [],
        Element ''text'' [(''start'', ''2.5'')] None [],
        Element ''text'' [(''dur'', ''1e1'')] (Some (''two'' @ [CHR 0x0A] @ ''lines'')) []]"

definition example_xml :: string where
  "example_xml =
     ''<transcript><text start='0.5' dur='2'>it&amp;#39;s</text><head/><text start='2.5'/>''
     @ ''<text dur='1e1'>two'' @ [CHR 0x0A] @ ''lines</text></transcript>''"

definition example_plain_document :: element where
  "example_plain_document =
     Element ''transcript'' [] None
       [Element ''text'' [(''start'', ''0''), (''dur'', ''1.5'')] (Some ''hello'') [],
        Element ''text'' [(''start'', ''1.5''), (''dur'', ''2'')] (Some ''world'') []]"

definition example_plain_xml :: string where
  "example_plain_xml =
     ''<transcript><text start='0' dur='1.5'>hello</text>''
     @ ''<text start='1.5' dur='2'>world</text></transcript>''"

definition example_world :: "string world" where
  "example_world =
     \<lparr>player = (\<lambda>video_id. if video_id = ''abc123'' then Inr example_player_data
                           else Inl (LibraryError ''video unavailable'')),
      requests_get = (\<lambda>url. if url = JStr ''https://captions.example/en'' then Inr example_xml
                            else if url = JStr ''https://captions.example/de''
                            then Inr example_plain_xml
                            else Inl (LibraryError ''connection refused'')),
      fromstring = (\<lambda>s. if s = example_xml then Inr example_document
                          else if s = example_plain_xml then Inr example_plain_document
                          else Inl (LibraryError ''syntax error'')),
      float_of_str = example_float,
      float_of_zero = ''0.0'',
      float_truthy = (\<lambda>x. \<exists>c \<in> set x. c \<in> set ''123456789infaINFA''),
      exc_str = example_str\<rparr>"

definition example_server :: server where
  "example_server = \<lparr>API_KEY = Some ''secret'', log = []\<rparr>"

definition captions_request :: "(string \<times> string) list \<Rightarrow> (string \<times> string) list \<Rightarrow> request" where
  "captions_request hs as =
     \<lparr>path = ''/captions'', http_method = ''GET'', headers = hs, args = as\<rparr>"

section \<open>Notions for the statements\<close>

text \<open>
  The record that the specification describes for one \<^verbatim>\<open>text\<close> element: the float value
  of an attribute, or \<^verbatim>\<open>float(0)\<close> when the element has no such attribute, and the
  text or the empty string. \<open>float_accepts\<close> says that the attribute, when present, has a
  float value.
\<close>

definition float_or_zero :: "'f world \<Rightarrow> element \<Rightarrow> string \<Rightarrow> 'f" where
  "float_or_zero w e name =
     (case map_of (attrib e) name of
        None \<Rightarrow> float_of_zero w
      | Some s \<Rightarrow> the (float_of_str w s))"

definition described_record :: "'f world \<Rightarrow> element \<Rightarrow> 'f caption" where
  "described_record w e =
     \<lparr>start = float_or_zero w e ''start'', duration = float_or_zero w e ''dur'',
      caption_text = (case elem_text e of None \<Rightarrow> [] | Some t \<Rightarrow> t)\<rparr>"

definition float_accepts :: "'f world \<Rightarrow> element \<Rightarrow> string \<Rightarrow> bool" where
  "float_accepts w e name =
     (case map_of (attrib e) name of None \<Rightarrow> True | Some s \<Rightarrow> float_of_str w s \<noteq> None)"

text \<open>The value stored under a key of a JSON object, for statements about a response.\<close>

definition field :: "'f json \<Rightarrow> string \<Rightarrow> 'f json option" where
  "field x k = (case x of JObj kvs \<Rightarrow> map_of kvs k | _ \<Rightarrow> None)"

text \<open>A string occurs in another one, at some position.\<close>

fun occurs :: "string \<Rightarrow> string \<Rightarrow> bool" where
  "occurs pat [] = (pat = [])"
| "occurs pat (c # cs) = (take (length pat) (c # cs) = pat \<or> occurs pat cs)"

text \<open>
  The entry that the specification describes for one caption track: its language code
  and the simple text of its name.
\<close>

definition described_language :: "'f json \<Rightarrow> 'f json" where
  "described_language t =
     JObj [(''languageCode'', the (field t ''languageCode'')),
           (''name'', the (field (the (field t ''name'')) ''simpleText''))]"

definition has_language_fields :: "'f json \<Rightarrow> bool" where
  "has_language_fields t =
     (case field t ''languageCode'' of
        None \<Rightarrow> False
      | Some code \<Rightarrow>
          (case field t ''name'' of
             None \<Rightarrow> False
           | Some n \<Rightarrow> field n ''simpleText'' \<noteq> None))"

text \<open>A player response whose only caption track has no language code.\<close>

definition example_nameless_data :: "string json" where
  "example_nameless_data =
     JObj [(''captions'', JObj [(''playerCaptionsTracklistRenderer'', JObj
              [(''captionTracks'', JArr
                 [JObj [(''baseUrl'', JStr ''https://captions.example/en'')]])])])]"

text \<open>
  For statements about the extraction. \<open>field_path\<close> is the value at a path of keys
  (\<open>None\<close> when a key is missing) and \<open>field_or\<close> is that value or a default.
  \<open>dicts_on\<close> says that along a path every value that is asked for a key is a
  dictionary. \<open>url_of_last\<close> is the value that lines 79 and 89 describe: the default
  when the list is missing or empty, the \<^verbatim>\<open>url\<close> of the last item when that item has
  one, and \<open>None\<close> when it has none.
\<close>

fun field_path :: "'f json \<Rightarrow> string list \<Rightarrow> 'f json option" where
  "field_path x [] = Some x"
| "field_path x (k # ks) = (case field x k of None \<Rightarrow> None | Some v \<Rightarrow> field_path v ks)"

definition field_or :: "'f json \<Rightarrow> string list \<Rightarrow> 'f json \<Rightarrow> 'f json" where
  "field_or x ks d = (case field_path x ks of None \<Rightarrow> d | Some v \<Rightarrow> v)"

fun dicts_on :: "'f json \<Rightarrow> string list \<Rightarrow> bool" where
  "dicts_on x [] = True"
| "dicts_on x (k # ks) =
     (case x of
        JObj kvs \<Rightarrow> (case map_of kvs k of None \<Rightarrow> True | Some v \<Rightarrow> dicts_on v ks)
      | _ \<Rightarrow> False)"

definition url_of_last :: "'f world \<Rightarrow> 'f json \<Rightarrow> string \<Rightarrow> 'f json option" where
  "url_of_last w xs dflt =
     (if truthy w xs then (case xs of JArr ys \<Rightarrow> field (last ys) ''url'' | _ \<Rightarrow> None)
      else Some (JStr dflt))"

text \<open>
  A second world, in which the metadata client answers differently for every video but
  \<^verbatim>\<open>abc123\<close>.
\<close>

definition example_other_world :: "string world" where
  "example_other_world =
     example_world\<lparr>player := \<lambda>video_id. if video_id = ''abc123'' then Inr example_player_data
                                         else Inl (LibraryError ''quota exceeded'')\<rparr>"

section \<open>Dispatching\<close>

lemma dispatch_request_captions:
  "path req = ''/captions'' \<Longrightarrow> http_method req = ''GET'' \<Longrightarrow>
   dispatch_request w req = (Reply (fst (get_captions w req)), snd (get_captions w req))"
  by (simp add: dispatch_request_def url_map_def view_functions_def split: prod.splits)

lemma dispatch_request_home:
  "path req = ''/'' \<Longrightarrow> http_method req = ''GET'' \<Longrightarrow>
   dispatch_request w req = (Reply home, [])"
  by (simp add: dispatch_request_def url_map_def view_functions_def)

lemma wsgi_app_rejected:
  "map_of (headers req) ''x-api-key'' \<noteq> API_KEY srv \<Longrightarrow>
   full_dispatch_request (enforce_api_key srv) dispatch req = (Reply unauthorized, [])"
  by (simp add: full_dispatch_request_def enforce_api_key_def validate_api_key_def)

lemma wsgi_app_accepted:
  "map_of (headers req) ''x-api-key'' = API_KEY srv \<Longrightarrow>
   wsgi_app w srv req =
     (fst (dispatch_request w req), srv\<lparr>log := log srv @ snd (dispatch_request w req)\<rparr>)"
  by (simp add: wsgi_app_def full_dispatch_request_def enforce_api_key_def validate_api_key_def
      split: prod.splits)

section \<open>The API key is enforced before every view\<close>

text \<open>
  Claim C1. For every request, whatever its path and method: when the value of the
  \<^verbatim>\<open>x-api-key\<close> header (absent counts as \<^verbatim>\<open>None\<close>) differs from the configured
  \<^verbatim>\<open>API_KEY\<close>, the answer is status 403 with the body
  \<^verbatim>\<open>{'error': 'Unauthorized access. Invalid API key.'}\<close>, whatever the dispatcher and the
  views would have done (they are not consulted), nothing is logged and the server is
  unchanged. When the header equals \<^verbatim>\<open>API_KEY\<close>, the answer is the one of the
  dispatcher: the response of \<^verbatim>\<open>home\<close> for GET on \<^verbatim>\<open>/\<close> and the response of
  \<^verbatim>\<open>get_captions\<close> for GET on \<^verbatim>\<open>/captions\<close>.
\<close>

theorem enforce_api_key_gate:
  "(map_of (headers req) ''x-api-key'' \<noteq> API_KEY srv \<longrightarrow>
      (\<forall>dispatch. full_dispatch_request (enforce_api_key srv) dispatch req =
         (Reply \<lparr>status = 403,
                 body = JObj [(''error'', JStr ''Unauthorized access. Invalid API key.'')]\<rparr>, [])) \<and>
      wsgi_app w srv req =
        (Reply \<lparr>status = 403,
                body = JObj [(''error'', JStr ''Unauthorized access. Invalid API key.'')]\<rparr>, srv)) \<and>
   (map_of (headers req) ''x-api-key'' = API_KEY srv \<longrightarrow>
      wsgi_app w srv req =
        (fst (dispatch_request w req), srv\<lparr>log := log srv @ snd (dispatch_request w req)\<rparr>) \<and>
      (path req = ''/'' \<and> http_method req = ''GET'' \<longrightarrow>
         fst (wsgi_app w srv req) = Reply home) \<and>
      (path req = ''/captions'' \<and> http_method req = ''GET'' \<longrightarrow>
         fst (wsgi_app w srv req) = Reply (fst (get_captions w req))))"
proof (intro conjI impI allI)
  assume "map_of (headers req) ''x-api-key'' \<noteq> API_KEY srv"
  then have r: "\<And>dispatch. full_dispatch_request (enforce_api_key srv) dispatch req =
      (Reply unauthorized, [])"
    by (rule wsgi_app_rejected)
  show "\<And>dispatch. full_dispatch_request (enforce_api_key srv) dispatch req =
      (Reply \<lparr>status = 403,
              body = JObj [(''error'', JStr ''Unauthorized access. Invalid API key.'')]\<rparr>, [])"
    using r by (simp add: unauthorized_def)
  show "wsgi_app w srv req =
      (Reply \<lparr>status = 403,
              body = JObj [(''error'', JStr ''Unauthorized access. Invalid API key.'')]\<rparr>, srv)"
    by (simp add: wsgi_app_def r unauthorized_def)
next
  assume eq: "map_of (headers req) ''x-api-key'' = API_KEY srv"
  show "wsgi_app w srv req =
      (fst (dispatch_request w req), srv\<lparr>log := log srv @ snd (dispatch_request w req)\<rparr>)"
    using eq by (rule wsgi_app_accepted)
  {
    assume "path req = ''/'' \<and> http_method req = ''GET''"
    then show "fst (wsgi_app w srv req) = Reply home"
      by (simp add: wsgi_app_accepted [OF eq] dispatch_request_home)
  }
  {
    assume "path req = ''/captions'' \<and> http_method req = ''GET''"
    then show "fst (wsgi_app w srv req) = Reply (fst (get_captions w req))"
      by (simp add: wsgi_app_accepted [OF eq] dispatch_request_captions)
  }
qed

theorem enforce_api_key_gate_witness:
  "map_of (headers (captions_request [(''x-api-key'', ''guess'')] [(''video_id'', ''abc123'')]))
      ''x-api-key'' \<noteq> API_KEY example_server \<and>
   wsgi_app example_world example_server
      (captions_request [(''x-api-key'', ''guess'')] [(''video_id'', ''abc123'')]) =
     (Reply \<lparr>status = 403,
             body = JObj [(''error'', JStr ''Unauthorized access. Invalid API key.'')]\<rparr>,
      example_server) \<and>
   map_of (headers (captions_request [(''x-api-key'', ''secret'')] [(''video_id'', ''abc123'')]))
      ''x-api-key'' = API_KEY example_server \<and>
   fst (wsgi_app example_world example_server
      (captions_request [(''x-api-key'', ''secret'')] [(''video_id'', ''abc123'')])) =
     Reply (fst (get_captions example_world
       (captions_request [(''x-api-key'', ''secret'')] [(''video_id'', ''abc123'')])))"
proof -
  let ?bad = "captions_request [(''x-api-key'', ''guess'')] [(''video_id'', ''abc123'')]"
  let ?good = "captions_request [(''x-api-key'', ''secret'')] [(''video_id'', ''abc123'')]"
  have 1: "map_of (headers ?bad) ''x-api-key'' \<noteq> API_KEY example_server"
    by (simp add: captions_request_def example_server_def)
  have 2: "map_of (headers ?good) ''x-api-key'' = API_KEY example_server"
    by (simp add: captions_request_def example_server_def)
  have 3: "path ?good = ''/captions'' \<and> http_method ?good = ''GET''"
    by (simp add: captions_request_def)
  from 1 enforce_api_key_gate [of ?bad example_server example_world]
  have a: "wsgi_app example_world example_server ?bad =
      (Reply \<lparr>status = 403,
              body = JObj [(''error'', JStr ''Unauthorized access. Invalid API key.'')]\<rparr>,
       example_server)"
    by blast
  from 2 3 enforce_api_key_gate [of ?good example_server example_world]
  have b: "fst (wsgi_app example_world example_server ?good) =
      Reply (fst (get_captions example_world ?good))"
    by blast
  from 1 a 2 b show ?thesis by blast
qed

text \<open>
  Claim C2. When \<^verbatim>\<open>API_KEY\<close> is \<^verbatim>\<open>None\<close> (the environment variable is unset) and the
  request has no \<^verbatim>\<open>x-api-key\<close> header, \<^verbatim>\<open>validate_api_key\<close> returns true, the hook
  returns nothing, and the request is dispatched: GET on \<^verbatim>\<open>/captions\<close> is answered by
  \<^verbatim>\<open>get_captions\<close> and GET on \<^verbatim>\<open>/\<close> by \<^verbatim>\<open>home\<close>, with no key presented.
\<close>

theorem unset_key_serves_every_route:
  assumes "API_KEY srv = None" and "map_of (headers req) ''x-api-key'' = None"
  shows "validate_api_key srv req \<and>
         (enforce_api_key srv req :: 'f response option) = None \<and>
         wsgi_app w srv req =
           (fst (dispatch_request w req), srv\<lparr>log := log srv @ snd (dispatch_request w req)\<rparr>) \<and>
         (path req = ''/captions'' \<and> http_method req = ''GET'' \<longrightarrow>
            fst (wsgi_app w srv req) = Reply (fst (get_captions w req))) \<and>
         (path req = ''/'' \<and> http_method req = ''GET'' \<longrightarrow>
            fst (wsgi_app w srv req) = Reply home)"
proof -
  have v: "validate_api_key srv req"
    using assms by (simp add: validate_api_key_def)
  then have e: "(enforce_api_key srv req :: 'f response option) = None"
    by (simp add: enforce_api_key_def)
  have eq: "map_of (headers req) ''x-api-key'' = API_KEY srv"
    using assms by simp
  have a: "wsgi_app w srv req =
      (fst (dispatch_request w req), srv\<lparr>log := log srv @ snd (dispatch_request w req)\<rparr>)"
    using eq by (rule wsgi_app_accepted)
  have c: "path req = ''/captions'' \<and> http_method req = ''GET'' \<longrightarrow>
      fst (wsgi_app w srv req) = Reply (fst (get_captions w req))"
    by (simp add: a dispatch_request_captions)
  have h: "path req = ''/'' \<and> http_method req = ''GET'' \<longrightarrow>
      fst (wsgi_app w srv req) = Reply home"
    by (simp add: a dispatch_request_home)
  from v e a c h show ?thesis by blast
qed

theorem unset_key_serves_every_route_witness:
  "API_KEY (example_server\<lparr>API_KEY := None\<rparr>) = None \<and>
   map_of (headers (captions_request [] [(''video_id'', ''abc123'')])) ''x-api-key'' = None \<and>
   validate_api_key (example_server\<lparr>API_KEY := None\<rparr>)
     (captions_request [] [(''video_id'', ''abc123'')]) \<and>
   fst (wsgi_app example_world (example_server\<lparr>API_KEY := None\<rparr>)
          (captions_request [] [(''video_id'', ''abc123'')])) =
     Reply (fst (get_captions example_world (captions_request [] [(''video_id'', ''abc123'')])))"
proof -
  let ?srv = "example_server\<lparr>API_KEY := None\<rparr>"
  let ?req = "captions_request [] [(''video_id'', ''abc123'')]"
  have 1: "API_KEY ?srv = None"
    by simp
  have 2: "map_of (headers ?req) ''x-api-key'' = None"
    by (simp add: captions_request_def)
  have 3: "path ?req = ''/captions'' \<and> http_method ?req = ''GET''"
    by (simp add: captions_request_def)
  from 3 unset_key_serves_every_route [OF 1 2, of example_world]
  have "validate_api_key ?srv ?req \<and>
      fst (wsgi_app example_world ?srv ?req) = Reply (fst (get_captions example_world ?req))"
    by blast
  with 1 2 show ?thesis by blast
qed

section \<open>The paths through the view\<close>

lemma andThen_Inr [simp]: "andThen (Inr x) f = f x"
  by (simp add: andThen_def)

lemma andThen_Inl [simp]: "andThen (Inl e) f = Inl e"
  by (simp add: andThen_def)

lemma subscript_Inr:
  "subscript x k = Inr v \<Longrightarrow> \<exists>kvs. x = JObj kvs \<and> map_of kvs k = Some v"
  by (cases x) (auto split: option.splits)

lemma select_caption_Some:
  "select_caption tracks lang = Inr (Some c) \<Longrightarrow>
   c \<in> set tracks \<and> subscript c ''languageCode'' = Inr (JStr lang)"
proof (induction tracks)
  case Nil
  then show ?case by simp
next
  case (Cons t ts)
  show ?case
  proof (cases "subscript t ''languageCode''")
    case (Inl e)
    with Cons.prems show ?thesis by simp
  next
    case (Inr code)
    with Cons show ?thesis by (auto split: if_splits)
  qed
qed

lemma select_caption_truthy:
  assumes "select_caption tracks lang = Inr (Some c)"
  shows "truthy w c"
proof -
  from assms have "subscript c ''languageCode'' = Inr (JStr lang)"
    by (simp add: select_caption_Some)
  then obtain kvs where "c = JObj kvs" and "map_of kvs ''languageCode'' = Some (JStr lang)"
    by (auto dest: subscript_Inr)
  then show ?thesis by auto
qed

lemma try_selected:
  assumes "player w vid = Inr pd" and "video_metadata w pd = Inr md"
    and "caption_tracks pd = Inr caps" and "truthy w caps" and "lang \<noteq> []"
  shows "get_captions_try w vid (Some lang) ts = selected_response w vid md caps lang ts"
  using assms by (simp add: get_captions_try_def)

lemma try_languages:
  assumes "player w vid = Inr pd" and "video_metadata w pd = Inr md"
    and "caption_tracks pd = Inr caps" and "truthy w caps" and "sl = None \<or> sl = Some []"
  shows "get_captions_try w vid sl ts = languages_response vid md caps"
  using assms by (auto simp add: get_captions_try_def)

lemma selected_found:
  assumes "py_iter caps = Inr tracks" and "select_caption tracks lang = Inr (Some c)"
  shows "selected_response w vid md caps lang ts =
           andThen (subscript c ''baseUrl'') (\<lambda>url.
           andThen (requests_get w url) (\<lambda>raw_captions.
           andThen (fromstring w raw_captions) (\<lambda>root.
           andThen (parsed_captions w root) (\<lambda>parsed.
           Inr (presentation vid md lang ts parsed)))))"
  using assms select_caption_truthy [OF assms(2), of w]
  by (simp add: selected_response_def)

lemma get_captions_except:
  assumes "map_of (args req) ''video_id'' = Some vid" and "vid \<noteq> []"
  shows "get_captions w req =
     (case get_captions_try w vid (map_of (args req) ''language'') (timestamps_flag req) of
        Inr r \<Rightarrow> (r, [])
      | Inl e \<Rightarrow>
          (\<lparr>status = 500, body = JObj [(''error'', JStr (exc_str w e))]\<rparr>,
           [''Error while fetching captions for video_id '' @ vid @ '': '' @ exc_str w e]))"
  using assms by (simp add: get_captions_def)

section \<open>The example world, evaluated\<close>

lemma lower_true [simp]: "py_lower ''false'' \<noteq> ''true''"
  by (simp add: py_lower_def lower_char_def)

lemma example_player [simp]:
  "player example_world ''abc123'' = Inr example_player_data"
  "player example_world ''zzz'' = Inl (LibraryError ''video unavailable'')"
  by (simp_all add: example_world_def)

lemma example_video_metadata [simp]:
  "video_metadata example_world example_player_data = Inr example_metadata"
  by (simp add: video_metadata_def example_player_data_def example_metadata_def last_url_def)

lemma example_caption_tracks [simp]:
  "caption_tracks example_player_data = Inr (JArr example_tracks)"
  by (simp add: caption_tracks_def example_player_data_def)

lemma example_tracks_truthy [simp]: "example_tracks \<noteq> []"
  by (simp add: example_tracks_def)

lemma example_select [simp]:
  "select_caption example_tracks ''en'' = Inr (Some (example_track ''en'' ''English''))"
  "select_caption example_tracks ''fr'' = Inr (Some (example_track ''fr'' ''French''))"
  "select_caption example_tracks ''de'' = Inr (Some (example_track ''de'' ''German''))"
  "select_caption example_tracks ''it'' = Inr None"
  by (simp_all add: example_tracks_def example_track_def)

lemma example_base_url [simp]:
  "subscript (example_track code name) ''baseUrl'' = Inr (JStr (''https://captions.example/'' @ code))"
  by (simp add: example_track_def)

lemma example_xml_distinct [simp]: "example_plain_xml \<noteq> example_xml"
  by (simp add: example_xml_def example_plain_xml_def)

lemma example_download [simp]:
  "requests_get example_world (JStr ''https://captions.example/en'') = Inr example_xml"
  "requests_get example_world (JStr ''https://captions.example/de'') = Inr example_plain_xml"
  "requests_get example_world (JStr ''https://captions.example/fr'') =
     Inl (LibraryError ''connection refused'')"
  "fromstring example_world example_xml = Inr example_document"
  "fromstring example_world example_plain_xml = Inr example_plain_document"
  by (simp_all add: example_world_def)

lemma example_str_library [simp]: "exc_str example_world (LibraryError m) = m"
  by (simp add: example_world_def example_str_def)

lemma example_float_values:
  "example_float ''0.5'' = Some ''0.5''" "example_float ''2'' = Some ''2''"
  "example_float ''2.5'' = Some ''2.5''" "example_float ''1e1'' = Some ''1e1''"
  "example_float ''abc'' = None" "example_float ''1,5'' = None"
  "example_float ''0'' = Some ''0''" "example_float ''1.5'' = Some ''1.5''"
  by (simp_all add: example_float_def float_literal_def py_strip_def is_space_def
      unsigned_literal_def py_lower_def lower_char_def after_mantissa_def digitpart_def
      is_digit_def exponent_ok_def)

lemma example_parsed:
  "parsed_captions example_world example_document =
     Inr [\<lparr>start = ''0.5'', duration = ''2'', caption_text = ''it&#39;s''\<rparr>,
          \<lparr>start = ''2.5'', duration = ''0.0'', caption_text = []\<rparr>,
          \<lparr>start = ''0.0'', duration = ''1e1'', caption_text = ''two'' @ [CHR 0x0A] @ ''lines''\<rparr>]"
  by (simp add: parsed_captions_def findall_def example_document_def attrib_float_def
      text_or_empty_def example_world_def example_float_values)

lemma example_plain_parsed:
  "parsed_captions example_world example_plain_document =
     Inr [\<lparr>start = ''0'', duration = ''1.5'', caption_text = ''hello''\<rparr>,
          \<lparr>start = ''1.5'', duration = ''2'', caption_text = ''world''\<rparr>]"
  by (simp add: parsed_captions_def findall_def example_plain_document_def attrib_float_def
      text_or_empty_def example_world_def example_float_values)

section \<open>Exceptions inside the view\<close>

text \<open>
  Claim C8. For every request with a non-empty \<^verbatim>\<open>video_id\<close>: an exception of the body of
  the \<^verbatim>\<open>try\<close> statement is answered with status 500 and the body
  \<^verbatim>\<open>{'error': str(e)}\<close> (and one logged line), and the exception of each step is the
  exception of that body: the metadata client call, the extraction of the metadata and of
  the caption tracks, the lookup of the selected track, the download of the caption
  document, the XML parser, and the conversion of the parsed elements. The view returns a
  response in every case; it has no other outcome.
\<close>

theorem exceptions_become_500:
  assumes vid: "map_of (args req) ''video_id'' = Some vid" "vid \<noteq> []"
  shows
   "(\<forall>e. get_captions_try w vid (map_of (args req) ''language'') (timestamps_flag req) = Inl e \<longrightarrow>
       get_captions w req =
         (\<lparr>status = 500, body = JObj [(''error'', JStr (exc_str w e))]\<rparr>,
          [''Error while fetching captions for video_id '' @ vid @ '': '' @ exc_str w e])) \<and>
    (\<forall>sl ts e. player w vid = Inl e \<longrightarrow> get_captions_try w vid sl ts = Inl e) \<and>
    (\<forall>sl ts e pd. player w vid = Inr pd \<and> video_metadata w pd = Inl e \<longrightarrow>
       get_captions_try w vid sl ts = Inl e) \<and>
    (\<forall>sl ts e pd md. player w vid = Inr pd \<and> video_metadata w pd = Inr md \<and>
       caption_tracks pd = Inl e \<longrightarrow> get_captions_try w vid sl ts = Inl e) \<and>
    (\<forall>lang ts e pd md caps tracks.
       player w vid = Inr pd \<and> video_metadata w pd = Inr md \<and> caption_tracks pd = Inr caps \<and>
       truthy w caps \<and> lang \<noteq> [] \<and> py_iter caps = Inr tracks \<and>
       select_caption tracks lang = Inl e \<longrightarrow>
       get_captions_try w vid (Some lang) ts = Inl e) \<and>
    (\<forall>lang ts e pd md caps tracks c url.
       player w vid = Inr pd \<and> video_metadata w pd = Inr md \<and> caption_tracks pd = Inr caps \<and>
       truthy w caps \<and> lang \<noteq> [] \<and> py_iter caps = Inr tracks \<and>
       select_caption tracks lang = Inr (Some c) \<and> subscript c ''baseUrl'' = Inr url \<and>
       requests_get w url = Inl e \<longrightarrow>
       get_captions_try w vid (Some lang) ts = Inl e) \<and>
    (\<forall>lang ts e pd md caps tracks c url raw.
       player w vid = Inr pd \<and> video_metadata w pd = Inr md \<and> caption_tracks pd = Inr caps \<and>
       truthy w caps \<and> lang \<noteq> [] \<and> py_iter caps = Inr tracks \<and>
       select_caption tracks lang = Inr (Some c) \<and> subscript c ''baseUrl'' = Inr url \<and>
       requests_get w url = Inr raw \<and> fromstring w raw = Inl e \<longrightarrow>
       get_captions_try w vid (Some lang) ts = Inl e) \<and>
    (\<forall>lang ts e pd md caps tracks c url raw root.
       player w vid = Inr pd \<and> video_metadata w pd = Inr md \<and> caption_tracks pd = Inr caps \<and>
       truthy w caps \<and> lang \<noteq> [] \<and> py_iter caps = Inr tracks \<and>
       select_caption tracks lang = Inr (Some c) \<and> subscript c ''baseUrl'' = Inr url \<and>
       requests_get w url = Inr raw \<and> fromstring w raw = Inr root \<and>
       parsed_captions w root = Inl e \<longrightarrow>
       get_captions_try w vid (Some lang) ts = Inl e)"
proof (intro conjI allI impI)
  fix e
  assume "get_captions_try w vid (map_of (args req) ''language'') (timestamps_flag req) = Inl e"
  then show "get_captions w req =
         (\<lparr>status = 500, body = JObj [(''error'', JStr (exc_str w e))]\<rparr>,
          [''Error while fetching captions for video_id '' @ vid @ '': '' @ exc_str w e])"
    by (simp add: get_captions_except [OF vid])
next
  fix sl ts e
  assume "player w vid = Inl e"
  then show "get_captions_try w vid sl ts = Inl e"
    by (simp add: get_captions_try_def)
next
  fix sl ts e pd
  assume "player w vid = Inr pd \<and> video_metadata w pd = Inl e"
  then show "get_captions_try w vid sl ts = Inl e"
    by (simp add: get_captions_try_def)
next
  fix sl ts e pd md
  assume "player w vid = Inr pd \<and> video_metadata w pd = Inr md \<and> caption_tracks pd = Inl e"
  then show "get_captions_try w vid sl ts = Inl e"
    by (simp add: get_captions_try_def)
next
  fix lang ts e pd md caps tracks
  assume a: "player w vid = Inr pd \<and> video_metadata w pd = Inr md \<and> caption_tracks pd = Inr caps \<and>
       truthy w caps \<and> lang \<noteq> [] \<and> py_iter caps = Inr tracks \<and>
       select_caption tracks lang = Inl e"
  then have "get_captions_try w vid (Some lang) ts = selected_response w vid md caps lang ts"
    by (simp add: try_selected)
  with a show "get_captions_try w vid (Some lang) ts = Inl e"
    by (simp add: selected_response_def)
next
  fix lang ts e pd md caps tracks c url
  assume a: "player w vid = Inr pd \<and> video_metadata w pd = Inr md \<and> caption_tracks pd = Inr caps \<and>
       truthy w caps \<and> lang \<noteq> [] \<and> py_iter caps = Inr tracks \<and>
       select_caption tracks lang = Inr (Some c) \<and> subscript c ''baseUrl'' = Inr url \<and>
       requests_get w url = Inl e"
  then have "get_captions_try w vid (Some lang) ts = selected_response w vid md caps lang ts"
    by (simp add: try_selected)
  with a show "get_captions_try w vid (Some lang) ts = Inl e"
    by (simp add: selected_found)
next
  fix lang ts e pd md caps tracks c url raw
  assume a: "player w vid = Inr pd \<and> video_metadata w pd = Inr md \<and> caption_tracks pd = Inr caps \<and>
       truthy w caps \<and> lang \<noteq> [] \<and> py_iter caps = Inr tracks \<and>
       select_caption tracks lang = Inr (Some c) \<and> subscript c ''baseUrl'' = Inr url \<and>
       requests_get w url = Inr raw \<and> fromstring w raw = Inl e"
  then have "get_captions_try w vid (Some lang) ts = selected_response w vid md caps lang ts"
    by (simp add: try_selected)
  with a show "get_captions_try w vid (Some lang) ts = Inl e"
    by (simp add: selected_found)
next
  fix lang ts e pd md caps tracks c url raw root
  assume a: "player w vid = Inr pd \<and> video_metadata w pd = Inr md \<and> caption_tracks pd = Inr caps \<and>
       truthy w caps \<and> lang \<noteq> [] \<and> py_iter caps = Inr tracks \<and>
       select_caption tracks lang = Inr (Some c) \<and> subscript c ''baseUrl'' = Inr url \<and>
       requests_get w url = Inr raw \<and> fromstring w raw = Inr root \<and>
       parsed_captions w root = Inl e"
  then have "get_captions_try w vid (Some lang) ts = selected_response w vid md caps lang ts"
    by (simp add: try_selected)
  with a show "get_captions_try w vid (Some lang) ts = Inl e"
    by (simp add: selected_found)
qed

theorem exceptions_become_500_witness:
  "map_of (args (captions_request [] [(''video_id'', ''zzz'')])) ''video_id'' = Some ''zzz'' \<and>
   player example_world ''zzz'' = Inl (LibraryError ''video unavailable'') \<and>
   get_captions example_world (captions_request [] [(''video_id'', ''zzz'')]) =
     (\<lparr>status = 500, body = JObj [(''error'', JStr ''video unavailable'')]\<rparr>,
      [''Error while fetching captions for video_id zzz: video unavailable'']) \<and>
   requests_get example_world (JStr ''https://captions.example/fr'') =
     Inl (LibraryError ''connection refused'') \<and>
   get_captions example_world
       (captions_request [] [(''video_id'', ''abc123''), (''language'', ''fr'')]) =
     (\<lparr>status = 500, body = JObj [(''error'', JStr ''connection refused'')]\<rparr>,
      [''Error while fetching captions for video_id abc123: connection refused''])"
proof -
  let ?r1 = "captions_request [] [(''video_id'', ''zzz'')]"
  let ?r2 = "captions_request [] [(''video_id'', ''abc123''), (''language'', ''fr'')]"
  have v1: "map_of (args ?r1) ''video_id'' = Some ''zzz''" "''zzz'' \<noteq> []"
    by (simp_all add: captions_request_def)
  have v2: "map_of (args ?r2) ''video_id'' = Some ''abc123''" "''abc123'' \<noteq> []"
    by (simp_all add: captions_request_def)
  have l2: "map_of (args ?r2) ''language'' = Some ''fr''"
    by (simp add: captions_request_def)
  have p1: "player example_world ''zzz'' = Inl (LibraryError ''video unavailable'')"
    by simp
  note t1 = exceptions_become_500 [OF v1, of example_world]
  have "get_captions_try example_world ''zzz'' (map_of (args ?r1) ''language'')
      (timestamps_flag ?r1) = Inl (LibraryError ''video unavailable'')"
    by (rule t1 [THEN conjunct2, THEN conjunct1, rule_format, OF p1])
  then have g1: "get_captions example_world ?r1 =
      (\<lparr>status = 500,
        body = JObj [(''error'', JStr (exc_str example_world (LibraryError ''video unavailable'')))]\<rparr>,
       [''Error while fetching captions for video_id '' @ ''zzz'' @ '': ''
          @ exc_str example_world (LibraryError ''video unavailable'')])"
    by (rule t1 [THEN conjunct1, rule_format])
  note t2 = exceptions_become_500 [OF v2, of example_world]
  have d2: "requests_get example_world (JStr ''https://captions.example/fr'') =
      Inl (LibraryError ''connection refused'')"
    by simp
  have h2: "player example_world ''abc123'' = Inr example_player_data \<and>
      video_metadata example_world example_player_data = Inr example_metadata \<and>
      caption_tracks example_player_data = Inr (JArr example_tracks) \<and>
      truthy example_world (JArr example_tracks) \<and> ''fr'' \<noteq> [] \<and>
      py_iter (JArr example_tracks) = Inr example_tracks \<and>
      select_caption example_tracks ''fr'' = Inr (Some (example_track ''fr'' ''French'')) \<and>
      subscript (example_track ''fr'' ''French'') ''baseUrl'' =
        Inr (JStr ''https://captions.example/fr'') \<and>
      requests_get example_world (JStr ''https://captions.example/fr'') =
        Inl (LibraryError ''connection refused'')"
    by simp
  have "get_captions_try example_world ''abc123'' (Some ''fr'') (timestamps_flag ?r2) =
      Inl (LibraryError ''connection refused'')"
    by (rule t2 [THEN conjunct2, THEN conjunct2, THEN conjunct2, THEN conjunct2, THEN conjunct2,
          THEN conjunct1, rule_format, OF h2])
  with l2 have "get_captions_try example_world ''abc123'' (map_of (args ?r2) ''language'')
      (timestamps_flag ?r2) = Inl (LibraryError ''connection refused'')"
    by simp
  then have g2: "get_captions example_world ?r2 =
      (\<lparr>status = 500,
        body = JObj [(''error'', JStr (exc_str example_world (LibraryError ''connection refused'')))]\<rparr>,
       [''Error while fetching captions for video_id '' @ ''abc123'' @ '': ''
          @ exc_str example_world (LibraryError ''connection refused'')])"
    by (rule t2 [THEN conjunct1, rule_format])
  from v1(1) p1 g1 d2 g2 show ?thesis by simp
qed

section \<open>Parsing the caption document\<close>


lemma attrib_float_ok:
  "float_accepts w e name \<Longrightarrow> attrib_float w e name = Inr (float_or_zero w e name)"
  by (auto simp: float_accepts_def attrib_float_def float_or_zero_def split: option.splits)

lemma attrib_float_bad:
  "\<not> float_accepts w e name \<Longrightarrow>
   \<exists>s. map_of (attrib e) name = Some s \<and> float_of_str w s = None \<and>
       attrib_float w e name = Inl (ValueError s)"
  by (auto simp: float_accepts_def attrib_float_def split: option.splits)

lemma text_or_empty_eq:
  "text_or_empty e = (case elem_text e of None \<Rightarrow> [] | Some t \<Rightarrow> t)"
  by (simp add: text_or_empty_def split: option.splits)

lemma parse_elements_ok:
  "\<forall>e \<in> set es. float_accepts w e ''start'' \<and> float_accepts w e ''dur'' \<Longrightarrow>
   parse_elements w es = Inr (map (described_record w) es)"
  by (induction es) (simp_all add: attrib_float_ok described_record_def text_or_empty_eq)

lemma parse_elements_bad:
  "\<exists>e \<in> set es. \<not> (float_accepts w e ''start'' \<and> float_accepts w e ''dur'') \<Longrightarrow>
   \<exists>s. float_of_str w s = None \<and> parse_elements w es = Inl (ValueError s)"
proof (induction es)
  case Nil
  then show ?case by simp
next
  case (Cons e es)
  show ?case
  proof (cases "float_accepts w e ''start''")
    case False
    then show ?thesis
      using attrib_float_bad [of w e "''start''"] by auto
  next
    case s: True
    show ?thesis
    proof (cases "float_accepts w e ''dur''")
      case False
      then show ?thesis
        using attrib_float_bad [of w e "''dur''"] s by (auto simp: attrib_float_ok)
    next
      case d: True
      with s Cons.prems have "\<exists>e \<in> set es. \<not> (float_accepts w e ''start'' \<and> float_accepts w e ''dur'')"
        by auto
      then obtain x where "float_of_str w x = None" and "parse_elements w es = Inl (ValueError x)"
        using Cons.IH by blast
      with s d show ?thesis
        by (auto simp: attrib_float_ok)
    qed
  qed
qed

text \<open>
  Claim C3, amended. For every caption document whose \<^verbatim>\<open>text\<close> children carry only
  \<^verbatim>\<open>start\<close> and \<^verbatim>\<open>dur\<close> attributes that \<^verbatim>\<open>float\<close> accepts, parsing produces exactly
  one record per \<^verbatim>\<open>text\<close> child of the root, in document order; its start and duration
  are the float values of the attributes (\<^verbatim>\<open>float(0)\<close> when absent) and its text is the
  text of the element (the empty string when absent). When one of these attributes is
  not accepted, parsing produces no record: it raises \<^verbatim>\<open>ValueError\<close> for a string that
  \<^verbatim>\<open>float\<close> rejects.
\<close>

theorem parsed_captions_records:
  "((\<forall>e \<in> set (children root). tag e = ''text'' \<longrightarrow>
        float_accepts w e ''start'' \<and> float_accepts w e ''dur'') \<longrightarrow>
      parsed_captions w root =
        Inr (map (described_record w) (filter (\<lambda>e. tag e = ''text'') (children root)))) \<and>
   ((\<exists>e \<in> set (children root). tag e = ''text'' \<and>
        \<not> (float_accepts w e ''start'' \<and> float_accepts w e ''dur'')) \<longrightarrow>
      (\<exists>s. float_of_str w s = None \<and> parsed_captions w root = Inl (ValueError s)))"
proof (intro conjI impI)
  assume "\<forall>e \<in> set (children root). tag e = ''text'' \<longrightarrow>
      float_accepts w e ''start'' \<and> float_accepts w e ''dur''"
  then have "\<forall>e \<in> set (findall root ''text''). float_accepts w e ''start'' \<and> float_accepts w e ''dur''"
    by (simp add: findall_def)
  then have "parse_elements w (findall root ''text'') =
      Inr (map (described_record w) (findall root ''text''))"
    by (rule parse_elements_ok)
  then show "parsed_captions w root =
      Inr (map (described_record w) (filter (\<lambda>e. tag e = ''text'') (children root)))"
    by (simp add: parsed_captions_def findall_def)
next
  assume "\<exists>e \<in> set (children root). tag e = ''text'' \<and>
      \<not> (float_accepts w e ''start'' \<and> float_accepts w e ''dur'')"
  then have "\<exists>e \<in> set (findall root ''text'').
      \<not> (float_accepts w e ''start'' \<and> float_accepts w e ''dur'')"
    by (auto simp: findall_def)
  then show "\<exists>s. float_of_str w s = None \<and> parsed_captions w root = Inl (ValueError s)"
    unfolding parsed_captions_def by (rule parse_elements_bad)
qed

theorem parsed_captions_records_witness:
  "parsed_captions example_world example_document =
     Inr [\<lparr>start = ''0.5'', duration = ''2'', caption_text = ''it&#39;s''\<rparr>,
          \<lparr>start = ''2.5'', duration = ''0.0'', caption_text = []\<rparr>,
          \<lparr>start = ''0.0'', duration = ''1e1'', caption_text = ''two'' @ [CHR 0x0A] @ ''lines''\<rparr>] \<and>
   float_of_str example_world ''1,5'' = None \<and>
   parsed_captions example_world
       (Element ''transcript'' [] None [Element ''text'' [(''dur'', ''1,5'')] None []]) =
     Inl (ValueError ''1,5'')"
proof -
  let ?bad = "Element ''transcript'' [] None [Element ''text'' [(''dur'', ''1,5'')] None []]"
  have f: "float_of_str example_world = example_float" "float_of_zero example_world = ''0.0''"
    by (simp_all add: example_world_def)
  have ok: "\<forall>e \<in> set (children example_document). tag e = ''text'' \<longrightarrow>
      float_accepts example_world e ''start'' \<and> float_accepts example_world e ''dur''"
    by (simp add: example_document_def float_accepts_def f example_float_values)
  have "parsed_captions example_world example_document =
      Inr (map (described_record example_world)
             (filter (\<lambda>e. tag e = ''text'') (children example_document)))"
    by (rule parsed_captions_records [of example_document example_world, THEN conjunct1,
          THEN mp, OF ok])
  then have a: "parsed_captions example_world example_document =
     Inr [\<lparr>start = ''0.5'', duration = ''2'', caption_text = ''it&#39;s''\<rparr>,
          \<lparr>start = ''2.5'', duration = ''0.0'', caption_text = []\<rparr>,
          \<lparr>start = ''0.0'', duration = ''1e1'', caption_text = ''two'' @ [CHR 0x0A] @ ''lines''\<rparr>]"
    by (simp add: example_document_def described_record_def float_or_zero_def f
        example_float_values)
  have bad: "\<exists>e \<in> set (children ?bad). tag e = ''text'' \<and>
      \<not> (float_accepts example_world e ''start'' \<and> float_accepts example_world e ''dur'')"
    by (simp add: float_accepts_def f example_float_values)
  have "\<exists>s. float_of_str example_world s = None \<and>
      parsed_captions example_world ?bad = Inl (ValueError s)"
    by (rule parsed_captions_records [of ?bad example_world, THEN conjunct2, THEN mp, OF bad])
  moreover have "\<exists>e. parsed_captions example_world ?bad = Inl (ValueError ''1,5'') \<or>
      parsed_captions example_world ?bad = Inr e"
    by (simp add: parsed_captions_def findall_def attrib_float_def f example_float_values)
  ultimately have b: "parsed_captions example_world ?bad = Inl (ValueError ''1,5'')"
    by auto
  from a b show ?thesis
    by (simp add: f example_float_values)
qed

text \<open>
  Claim C3 as stated fails: a document whose only \<^verbatim>\<open>text\<close> element has the attribute
  \<^verbatim>\<open>start="abc"\<close> yields no record but a \<^verbatim>\<open>ValueError\<close>.
\<close>

theorem parsed_captions_counterexample:
  "float_of_str example_world ''abc'' = None \<and>
   parsed_captions example_world
       (Element ''transcript'' [] None [Element ''text'' [(''start'', ''abc'')] (Some ''hi'') []]) =
     Inl (ValueError ''abc'')"
  by (simp add: parsed_captions_def findall_def attrib_float_def example_world_def
      example_float_values)

section \<open>The two presentations\<close>

lemma selected_truthy:
  assumes "py_iter caps = Inr tracks" and "select_caption tracks lang = Inr (Some c)"
  shows "truthy w caps"
proof -
  from assms(2) have c: "c \<in> set tracks" "subscript c ''languageCode'' = Inr (JStr lang)"
    by (simp_all add: select_caption_Some)
  then obtain kvs where obj: "c = JObj kvs"
    by (auto dest: subscript_Inr)
  show ?thesis
  proof (cases caps)
    case (JArr xs)
    with assms(1) c(1) show ?thesis by auto
  next
    case (JStr s)
    with assms(1) c(1) obj show ?thesis by auto
  next
    case (JObj kvs')
    with assms(1) c(1) obj show ?thesis by auto
  qed (use assms(1) in simp_all)
qed

lemma get_captions_presented:
  assumes "map_of (args req) ''video_id'' = Some vid" and "vid \<noteq> []"
    and "map_of (args req) ''language'' = Some lang" and "lang \<noteq> []"
    and "player w vid = Inr pd" and "video_metadata w pd = Inr md"
    and "caption_tracks pd = Inr caps" and "py_iter caps = Inr tracks"
    and "select_caption tracks lang = Inr (Some c)" and "subscript c ''baseUrl'' = Inr url"
    and "requests_get w url = Inr raw" and "fromstring w raw = Inr root"
    and "parsed_captions w root = Inr parsed"
  shows "get_captions w req = (presentation vid md lang (timestamps_flag req) parsed, [])"
proof -
  have t: "truthy w caps"
    using assms(8,9) by (rule selected_truthy)
  have "get_captions_try w vid (Some lang) (timestamps_flag req) =
      selected_response w vid md caps lang (timestamps_flag req)"
    using assms(5,6,7) t assms(4) by (rule try_selected)
  also have "\<dots> = Inr (presentation vid md lang (timestamps_flag req) parsed)"
    using assms(10-13) by (simp add: selected_found [OF assms(8,9)])
  finally show ?thesis
    using assms(1,2,3) by (simp add: get_captions_except)
qed

lemma timestamps_flag_eq:
  "timestamps_flag req =
     (case map_of (args req) ''timestamps'' of None \<Rightarrow> False | Some v \<Rightarrow> py_lower v = ''true'')"
  by (simp add: timestamps_flag_def split: option.splits)

lemma presentation_fields:
  "status (presentation vid md lang ts parsed) = 200"
  "field (body (presentation vid md lang ts parsed)) ''timestamped_captions'' =
     (if ts then Some (JArr (map caption_json parsed)) else None)"
  "field (body (presentation vid md lang ts parsed)) ''captions'' =
     (if ts then None else Some (JStr (concatenated_text parsed)))"
  by (simp_all add: presentation_def field_def metadata_fields_def)

text \<open>
  Claim C4, amended. For every request with a non-empty \<^verbatim>\<open>video_id\<close> and a non-empty
  \<^verbatim>\<open>language\<close> whose caption track exists, and whose caption document is downloaded and
  parsed without an exception: the \<^verbatim>\<open>timestamps\<close> parameter counts as true exactly when
  its lower-cased value is \<^verbatim>\<open>true\<close> (and as false when it is absent); the response has
  status 200; when the flag is true it holds the records under
  \<^verbatim>\<open>timestamped_captions\<close> and has no \<^verbatim>\<open>captions\<close> entry, and when it is false it
  holds the flat string under \<^verbatim>\<open>captions\<close> and has no \<^verbatim>\<open>timestamped_captions\<close> entry.
\<close>

theorem timestamps_select_presentation:
  assumes "map_of (args req) ''video_id'' = Some vid" and "vid \<noteq> []"
    and "map_of (args req) ''language'' = Some lang" and "lang \<noteq> []"
    and "player w vid = Inr pd" and "video_metadata w pd = Inr md"
    and "caption_tracks pd = Inr caps" and "py_iter caps = Inr tracks"
    and "select_caption tracks lang = Inr (Some c)" and "subscript c ''baseUrl'' = Inr url"
    and "requests_get w url = Inr raw" and "fromstring w raw = Inr root"
    and "parsed_captions w root = Inr parsed"
  shows "timestamps_flag req =
           (case map_of (args req) ''timestamps'' of
              None \<Rightarrow> False | Some v \<Rightarrow> py_lower v = ''true'') \<and>
         status (fst (get_captions w req)) = 200 \<and>
         field (body (fst (get_captions w req))) ''timestamped_captions'' =
           (if timestamps_flag req then Some (JArr (map caption_json parsed)) else None) \<and>
         field (body (fst (get_captions w req))) ''captions'' =
           (if timestamps_flag req then None else Some (JStr (concatenated_text parsed)))"
proof -
  have "get_captions w req = (presentation vid md lang (timestamps_flag req) parsed, [])"
    using assms by (rule get_captions_presented)
  then show ?thesis
    by (simp add: presentation_fields timestamps_flag_eq)
qed

lemma example_lower [simp]: "py_lower ''TRUE'' = ''true''"
  by (simp add: py_lower_def lower_char_def)

theorem timestamps_select_presentation_witness:
  "timestamps_flag (captions_request []
       [(''video_id'', ''abc123''), (''language'', ''en''), (''timestamps'', ''TRUE'')]) \<and>
   field (body (fst (get_captions example_world (captions_request []
       [(''video_id'', ''abc123''), (''language'', ''en''), (''timestamps'', ''TRUE'')]))))
     ''timestamped_captions'' =
     Some (JArr
       [JObj [(''start'', JFloat ''0.5''), (''duration'', JFloat ''2''), (''text'', JStr ''it&#39;s'')],
        JObj [(''start'', JFloat ''2.5''), (''duration'', JFloat ''0.0''), (''text'', JStr [])],
        JObj [(''start'', JFloat ''0.0''), (''duration'', JFloat ''1e1''),
              (''text'', JStr (''two'' @ [CHR 0x0A] @ ''lines''))]]) \<and>
   field (body (fst (get_captions example_world (captions_request []
       [(''video_id'', ''abc123''), (''language'', ''en''), (''timestamps'', ''TRUE'')]))))
     ''captions'' = None \<and>
   \<not> timestamps_flag (captions_request [] [(''video_id'', ''abc123''), (''language'', ''en'')]) \<and>
   field (body (fst (get_captions example_world (captions_request []
       [(''video_id'', ''abc123''), (''language'', ''en'')])))) ''captions'' =
     Some (JStr ''it ; s two  lines'') \<and>
   field (body (fst (get_captions example_world (captions_request []
       [(''video_id'', ''abc123''), (''language'', ''en'')])))) ''timestamped_captions'' = None"
proof -
  let ?r1 = "captions_request []
       [(''video_id'', ''abc123''), (''language'', ''en''), (''timestamps'', ''TRUE'')]"
  let ?r2 = "captions_request [] [(''video_id'', ''abc123''), (''language'', ''en'')]"
  let ?parsed = "[\<lparr>start = ''0.5'', duration = ''2'', caption_text = ''it&#39;s''\<rparr>,
       \<lparr>start = ''2.5'', duration = ''0.0'', caption_text = []\<rparr>,
       \<lparr>start = ''0.0'', duration = ''1e1'', caption_text = ''two'' @ [CHR 0x0A] @ ''lines''\<rparr>]"
  have f1: "timestamps_flag ?r1" and f2: "\<not> timestamps_flag ?r2"
    by (simp_all add: timestamps_flag_def captions_request_def)
  have c: "concatenated_text ?parsed = ''it ; s two  lines''"
    by (simp add: concatenated_text_def)
  have j: "map caption_json ?parsed =
       [JObj [(''start'', JFloat ''0.5''), (''duration'', JFloat ''2''), (''text'', JStr ''it&#39;s'')],
        JObj [(''start'', JFloat ''2.5''), (''duration'', JFloat ''0.0''), (''text'', JStr [])],
        JObj [(''start'', JFloat ''0.0''), (''duration'', JFloat ''1e1''),
              (''text'', JStr (''two'' @ [CHR 0x0A] @ ''lines''))]]"
    by (simp add: caption_json_def)
  have t1: "field (body (fst (get_captions example_world ?r1))) ''timestamped_captions'' =
        (if timestamps_flag ?r1 then Some (JArr (map caption_json ?parsed)) else None) \<and>
      field (body (fst (get_captions example_world ?r1))) ''captions'' =
        (if timestamps_flag ?r1 then None else Some (JStr (concatenated_text ?parsed)))"
    using timestamps_select_presentation [where req = ?r1 and w = example_world
        and vid = "''abc123''" and lang = "''en''" and pd = example_player_data
        and md = example_metadata and caps = "JArr example_tracks"
        and tracks = example_tracks and c = "example_track ''en'' ''English''"
        and url = "JStr ''https://captions.example/en''" and raw = example_xml
        and root = example_document and parsed = ?parsed]
    by (simp add: captions_request_def example_parsed)
  have t2: "field (body (fst (get_captions example_world ?r2))) ''timestamped_captions'' =
        (if timestamps_flag ?r2 then Some (JArr (map caption_json ?parsed)) else None) \<and>
      field (body (fst (get_captions example_world ?r2))) ''captions'' =
        (if timestamps_flag ?r2 then None else Some (JStr (concatenated_text ?parsed)))"
    using timestamps_select_presentation [where req = ?r2 and w = example_world
        and vid = "''abc123''" and lang = "''en''" and pd = example_player_data
        and md = example_metadata and caps = "JArr example_tracks"
        and tracks = example_tracks and c = "example_track ''en'' ''English''"
        and url = "JStr ''https://captions.example/en''" and raw = example_xml
        and root = example_document and parsed = ?parsed]
    by (simp add: captions_request_def example_parsed)
  from t1 t2 f1 f2 show ?thesis
    by (simp only: c j if_True if_False simp_thms)
qed

text \<open>
  Claim C4 as stated fails: the French track of the example video exists, but its
  download raises, and the response is the error of status 500, which has neither entry.
\<close>

theorem timestamps_select_presentation_counterexample:
  "select_caption example_tracks ''fr'' = Inr (Some (example_track ''fr'' ''French'')) \<and>
   get_captions example_world
       (captions_request [] [(''video_id'', ''abc123''), (''language'', ''fr'')]) =
     (\<lparr>status = 500, body = JObj [(''error'', JStr ''connection refused'')]\<rparr>,
      [''Error while fetching captions for video_id abc123: connection refused'']) \<and>
   field (JObj [(''error'', JStr ''connection refused'') :: string \<times> string json]) ''captions'' = None \<and>
   field (JObj [(''error'', JStr ''connection refused'') :: string \<times> string json])
     ''timestamped_captions'' = None"
proof -
  let ?r = "captions_request [] [(''video_id'', ''abc123''), (''language'', ''fr'')]"
  have "get_captions_try example_world ''abc123'' (Some ''fr'') (timestamps_flag ?r) =
      selected_response example_world ''abc123'' example_metadata (JArr example_tracks) ''fr''
        (timestamps_flag ?r)"
    by (rule try_selected [where pd = example_player_data]) simp_all
  also have "\<dots> = Inl (LibraryError ''connection refused'')"
    by (simp add: selected_found [where tracks = example_tracks
          and c = "example_track ''fr'' ''French''"])
  finally have "get_captions example_world ?r =
     (\<lparr>status = 500, body = JObj [(''error'', JStr ''connection refused'')]\<rparr>,
      [''Error while fetching captions for video_id abc123: connection refused''])"
    by (simp add: get_captions_except [where vid = "''abc123''"] captions_request_def)
  then show ?thesis
    by (simp add: field_def)
qed

section \<open>The flat transcript\<close>

lemma py_replace_absent:
  "\<not> occurs old s \<Longrightarrow> py_replace old new s = s"
  by (induction s) auto

lemma occurs_single:
  "occurs [c] s \<Longrightarrow> c \<in> set s"
  by (induction s) auto

lemma occurs_across:
  assumes "pat \<noteq> []" and "c \<notin> set pat" and "occurs pat (a @ c # b)"
  shows "occurs pat a \<or> occurs pat b"
  using assms(3)
proof (induction a)
  case Nil
  show ?case
  proof (cases "take (length pat) (c # b) = pat")
    case True
    with assms(1) have "c \<in> set pat"
      by (cases pat) auto
    with assms(2) show ?thesis by simp
  next
    case False
    with Nil show ?thesis by simp
  qed
next
  case (Cons x a)
  show ?case
  proof (cases "take (length pat) (x # a @ c # b) = pat")
    case False
    with Cons show ?thesis by auto
  next
    case True
    show ?thesis
    proof (cases "length pat \<le> length (x # a)")
      case le: True
      then have "take (length pat) ((x # a) @ c # b) = take (length pat) (x # a)"
        by (simp only: take_append) simp
      with True show ?thesis by simp
    next
      case gt: False
      then have "take (length pat) ((x # a) @ c # b) =
          (x # a) @ c # take (length pat - length (x # a) - 1) b"
        by (cases "length pat - length (x # a)") (auto simp: take_Cons')
      with True have "c \<in> set pat"
        by (metis append_Cons in_set_conv_decomp)
      with assms(2) show ?thesis by simp
    qed
  qed
qed

lemma occurs_py_join:
  assumes "pat \<noteq> []" and "c \<notin> set pat"
  shows "occurs pat (py_join [c] ts) \<Longrightarrow> \<exists>t \<in> set ts. occurs pat t"
proof (induction "[c]" ts rule: py_join.induct)
  case 1
  with assms(1) show ?case by simp
next
  case (2 x)
  then show ?case by simp
next
  case (3 x y ys)
  from "3.prems" have "occurs pat (x @ c # py_join [c] (y # ys))"
    by simp
  then have "occurs pat x \<or> occurs pat (py_join [c] (y # ys))"
    using assms occurs_across by blast
  with "3.hyps" show ?case by auto
qed

lemma set_py_join:
  "set (py_join sep ts) \<subseteq> set sep \<union> (\<Union>t \<in> set ts. set t)"
  by (induction sep ts rule: py_join.induct) auto

lemma concatenated_text_unaltered:
  assumes "\<forall>r \<in> set parsed. caption_text r \<noteq> [] \<and> CHR 0x0A \<notin> set (caption_text r) \<and>
      \<not> occurs ''&#39;'' (caption_text r)"
  shows "concatenated_text parsed = py_join '' '' (map caption_text parsed)"
proof -
  let ?ts = "map caption_text parsed"
  have all: "filter (\<lambda>c. caption_text c \<noteq> []) parsed = parsed"
    using assms by (simp add: filter_id_conv)
  have "\<not> occurs ''&#39;'' (py_join '' '' ?ts)"
    using assms occurs_py_join [of "''&#39;''" "CHR '' ''" ?ts] by auto
  then have 1: "py_replace ''&#39;'' '' ; '' (py_join '' '' ?ts) = py_join '' '' ?ts"
    by (rule py_replace_absent)
  have "CHR 0x0A \<notin> set (py_join '' '' ?ts)"
    using assms set_py_join [of "'' ''" ?ts] by auto
  then have "\<not> occurs [CHR 0x0A] (py_join '' '' ?ts)"
    using occurs_single by blast
  then have 2: "py_replace [CHR 0x0A] ''  '' (py_join '' '' ?ts) = py_join '' '' ?ts"
    by (rule py_replace_absent)
  show ?thesis
    by (simp add: concatenated_text_def all 1 2)
qed

lemma concatenated_text_eq:
  "concatenated_text parsed =
     py_replace [CHR 0x0A] ''  ''
       (py_replace ''&#39;'' '' ; ''
          (py_join '' '' (filter (\<lambda>t. t \<noteq> []) (map caption_text parsed))))"
  by (simp add: concatenated_text_def filter_map comp_def)

text \<open>
  Claim C5, amended. When the caption document of the selected track is downloaded and
  parsed and \<^verbatim>\<open>timestamps\<close> is false, the \<^verbatim>\<open>captions\<close> value is built from the text
  fields of the records in document order: the empty texts are left out, the others are
  joined by single spaces, and in the joined string every \<^verbatim>\<open>&#39;\<close> is replaced by
  \<^verbatim>\<open> ; \<close> and then every newline by two spaces. When no text is empty and none holds a
  newline or \<^verbatim>\<open>&#39;\<close>, the value is the texts of all records joined by single spaces,
  unaltered.
\<close>

theorem flat_transcript:
  assumes "map_of (args req) ''video_id'' = Some vid" and "vid \<noteq> []"
    and "map_of (args req) ''language'' = Some lang" and "lang \<noteq> []"
    and "player w vid = Inr pd" and "video_metadata w pd = Inr md"
    and "caption_tracks pd = Inr caps" and "py_iter caps = Inr tracks"
    and "select_caption tracks lang = Inr (Some c)" and "subscript c ''baseUrl'' = Inr url"
    and "requests_get w url = Inr raw" and "fromstring w raw = Inr root"
    and "parsed_captions w root = Inr parsed"
    and "\<not> timestamps_flag req"
  shows "field (body (fst (get_captions w req))) ''captions'' =
           Some (JStr (py_replace [CHR 0x0A] ''  ''
                         (py_replace ''&#39;'' '' ; ''
                            (py_join '' '' (filter (\<lambda>t. t \<noteq> []) (map caption_text parsed)))))) \<and>
         ((\<forall>r \<in> set parsed. caption_text r \<noteq> [] \<and> CHR 0x0A \<notin> set (caption_text r) \<and>
              \<not> occurs ''&#39;'' (caption_text r)) \<longrightarrow>
          field (body (fst (get_captions w req))) ''captions'' =
            Some (JStr (py_join '' '' (map caption_text parsed))))"
proof -
  have "get_captions w req = (presentation vid md lang (timestamps_flag req) parsed, [])"
    using assms(1-13) by (rule get_captions_presented)
  with assms(14) have "field (body (fst (get_captions w req))) ''captions'' =
      Some (JStr (concatenated_text parsed))"
    by (simp add: presentation_fields)
  then show ?thesis
    using concatenated_text_eq [of parsed] concatenated_text_unaltered [of parsed]
    by simp
qed

theorem flat_transcript_witness:
  "\<not> timestamps_flag (captions_request [] [(''video_id'', ''abc123''), (''language'', ''en'')]) \<and>
   field (body (fst (get_captions example_world
       (captions_request [] [(''video_id'', ''abc123''), (''language'', ''en'')])))) ''captions'' =
     Some (JStr ''it ; s two  lines'') \<and>
   field (body (fst (get_captions example_world
       (captions_request [] [(''video_id'', ''abc123''), (''language'', ''de'')])))) ''captions'' =
     Some (JStr ''hello world'')"
proof -
  let ?r = "captions_request [] [(''video_id'', ''abc123''), (''language'', ''en'')]"
  let ?r' = "captions_request [] [(''video_id'', ''abc123''), (''language'', ''de'')]"
  let ?parsed = "[\<lparr>start = ''0.5'', duration = ''2'', caption_text = ''it&#39;s''\<rparr>,
       \<lparr>start = ''2.5'', duration = ''0.0'', caption_text = []\<rparr>,
       \<lparr>start = ''0.0'', duration = ''1e1'', caption_text = ''two'' @ [CHR 0x0A] @ ''lines''\<rparr>]"
  let ?plain = "[\<lparr>start = ''0'', duration = ''1.5'', caption_text = ''hello''\<rparr>,
          \<lparr>start = ''1.5'', duration = ''2'', caption_text = ''world''\<rparr>]"
  have f: "\<not> timestamps_flag ?r" and f': "\<not> timestamps_flag ?r'"
    by (simp_all add: timestamps_flag_def captions_request_def)
  have "field (body (fst (get_captions example_world ?r))) ''captions'' =
      Some (JStr (py_replace [CHR 0x0A] ''  ''
                    (py_replace ''&#39;'' '' ; ''
                       (py_join '' '' (filter (\<lambda>t. t \<noteq> []) (map caption_text ?parsed))))))"
    by (rule flat_transcript [where req = ?r and w = example_world
        and vid = "''abc123''" and lang = "''en''" and pd = example_player_data
        and md = example_metadata and caps = "JArr example_tracks"
        and tracks = example_tracks and c = "example_track ''en'' ''English''"
        and url = "JStr ''https://captions.example/en''" and raw = example_xml
        and root = example_document and parsed = ?parsed, THEN conjunct1])
      (simp_all add: captions_request_def example_parsed f [unfolded captions_request_def])
  then have a: "field (body (fst (get_captions example_world ?r))) ''captions'' =
      Some (JStr ''it ; s two  lines'')"
    by simp
  have clean: "\<forall>r \<in> set ?plain. caption_text r \<noteq> [] \<and> CHR 0x0A \<notin> set (caption_text r) \<and>
      \<not> occurs ''&#39;'' (caption_text r)"
    by simp
  have "(\<forall>r \<in> set ?plain. caption_text r \<noteq> [] \<and> CHR 0x0A \<notin> set (caption_text r) \<and>
      \<not> occurs ''&#39;'' (caption_text r)) \<longrightarrow>
      field (body (fst (get_captions example_world ?r'))) ''captions'' =
      Some (JStr (py_join '' '' (map caption_text ?plain)))"
    by (rule flat_transcript [where req = ?r' and w = example_world
        and vid = "''abc123''" and lang = "''de''" and pd = example_player_data
        and md = example_metadata and caps = "JArr example_tracks"
        and tracks = example_tracks and c = "example_track ''de'' ''German''"
        and url = "JStr ''https://captions.example/de''" and raw = example_plain_xml
        and root = example_plain_document and parsed = ?plain, THEN conjunct2])
      (simp_all add: captions_request_def example_plain_parsed f' [unfolded captions_request_def])
  with clean have "field (body (fst (get_captions example_world ?r'))) ''captions'' =
      Some (JStr (py_join '' '' (map caption_text ?plain)))"
    by (rule rev_mp)
  then have b: "field (body (fst (get_captions example_world ?r'))) ''captions'' =
      Some (JStr ''hello world'')"
    by simp
  from f a b show ?thesis by simp
qed

text \<open>
  Claim C5 as stated fails: for the example document the \<^verbatim>\<open>captions\<close> value is not the
  texts of the three records joined by single spaces; the empty text is left out and
  two texts are altered.
\<close>

theorem flat_transcript_counterexample:
  "parsed_captions example_world example_document =
     Inr [\<lparr>start = ''0.5'', duration = ''2'', caption_text = ''it&#39;s''\<rparr>,
          \<lparr>start = ''2.5'', duration = ''0.0'', caption_text = []\<rparr>,
          \<lparr>start = ''0.0'', duration = ''1e1'', caption_text = ''two'' @ [CHR 0x0A] @ ''lines''\<rparr>] \<and>
   py_join '' '' [''it&#39;s'', [], ''two'' @ [CHR 0x0A] @ ''lines''] =
     ''it&#39;s  two'' @ [CHR 0x0A] @ ''lines'' \<and>
   get_captions example_world
       (captions_request [] [(''video_id'', ''abc123''), (''language'', ''en'')]) =
     (\<lparr>status = 200,
       body = JObj [(''video_id'', JStr ''abc123''),
                    (''video_title'', JStr ''A talk''),
                    (''thumbnail'', JStr ''https://img.example/large.jpg''),
                    (''channel_name'', JStr ''A channel''),
                    (''channel_logo'', JStr ''No Channel Logo Available''),
                    (''languageCode'', JStr ''en''),
                    (''captions'', JStr ''it ; s two  lines'')]\<rparr>, [])"
proof -
  let ?r = "captions_request [] [(''video_id'', ''abc123''), (''language'', ''en'')]"
  let ?parsed = "[\<lparr>start = ''0.5'', duration = ''2'', caption_text = ''it&#39;s''\<rparr>,
       \<lparr>start = ''2.5'', duration = ''0.0'', caption_text = []\<rparr>,
       \<lparr>start = ''0.0'', duration = ''1e1'', caption_text = ''two'' @ [CHR 0x0A] @ ''lines''\<rparr>]"
  have f: "\<not> timestamps_flag ?r"
    by (simp add: timestamps_flag_def captions_request_def)
  have "get_captions example_world ?r =
      (presentation ''abc123'' example_metadata ''en'' (timestamps_flag ?r) ?parsed, [])"
    by (rule get_captions_presented [where pd = example_player_data
        and caps = "JArr example_tracks" and tracks = example_tracks
        and c = "example_track ''en'' ''English''"
        and url = "JStr ''https://captions.example/en''" and raw = example_xml
        and root = example_document])
      (simp_all add: captions_request_def example_parsed)
  with f have "get_captions example_world ?r =
     (\<lparr>status = 200,
       body = JObj [(''video_id'', JStr ''abc123''),
                    (''video_title'', JStr ''A talk''),
                    (''thumbnail'', JStr ''https://img.example/large.jpg''),
                    (''channel_name'', JStr ''A channel''),
                    (''channel_logo'', JStr ''No Channel Logo Available''),
                    (''languageCode'', JStr ''en''),
                    (''captions'', JStr ''it ; s two  lines'')]\<rparr>, [])"
    by (simp add: presentation_def metadata_fields_def example_metadata_def concatenated_text_def)
  then show ?thesis
    by (simp add: example_parsed)
qed

section \<open>The available languages\<close>

lemma subscript_field:
  "field t k = Some v \<Longrightarrow> subscript t k = Inr v"
  by (cases t) (simp_all add: field_def)

lemma subscript_missing:
  "field (JObj kvs) k = None \<Longrightarrow> subscript (JObj kvs) k = Inl (KeyError (JStr k))"
  by (simp add: field_def)

lemma available_languages_described:
  "\<forall>t \<in> set tracks. has_language_fields t \<Longrightarrow>
   available_languages tracks = Inr (map described_language tracks)"
proof (induction tracks)
  case Nil
  then show ?case by simp
next
  case (Cons t ts)
  from Cons.prems obtain code n simple where
    "field t ''languageCode'' = Some code" "field t ''name'' = Some n"
    "field n ''simpleText'' = Some simple"
    by (auto simp: has_language_fields_def split: option.splits)
  with Cons show ?case
    by (simp add: subscript_field described_language_def)
qed

text \<open>
  Claim C6, amended. For every request with a non-empty \<^verbatim>\<open>video_id\<close> and no \<^verbatim>\<open>language\<close>
  parameter (or an empty one): when the metadata call and the extraction of the metadata
  succeed, the caption tracks are a non-empty list, and every track has a
  \<^verbatim>\<open>languageCode\<close> and a \<^verbatim>\<open>name\<close> with a \<^verbatim>\<open>simpleText\<close>, the response has status 200 and
  holds the video id, the four metadata fields, and under \<^verbatim>\<open>available_languages\<close> one
  entry per caption track, in order, with that track's language code and the simple
  text of its name.
\<close>

theorem available_languages_listed:
  assumes "map_of (args req) ''video_id'' = Some vid" and "vid \<noteq> []"
    and "map_of (args req) ''language'' = None \<or> map_of (args req) ''language'' = Some []"
    and "player w vid = Inr pd" and "video_metadata w pd = Inr md"
    and "caption_tracks pd = Inr (JArr tracks)" and "tracks \<noteq> []"
    and "\<forall>t \<in> set tracks. has_language_fields t"
  shows "get_captions w req =
     (\<lparr>status = 200,
       body = JObj [(''video_id'', JStr vid),
                    (''video_title'', video_title md),
                    (''thumbnail'', thumbnail md),
                    (''channel_name'', channel_name md),
                    (''channel_logo'', channel_logo md),
                    (''available_languages'', JArr (map described_language tracks))]\<rparr>, [])"
proof -
  have "get_captions_try w vid (map_of (args req) ''language'') (timestamps_flag req) =
      languages_response vid md (JArr tracks)"
    using assms(4,5,6) _ assms(3) by (rule try_languages) (simp add: assms(7))
  also have "\<dots> = Inr \<lparr>status = 200,
       body = JObj [(''video_id'', JStr vid),
                    (''video_title'', video_title md),
                    (''thumbnail'', thumbnail md),
                    (''channel_name'', channel_name md),
                    (''channel_logo'', channel_logo md),
                    (''available_languages'', JArr (map described_language tracks))]\<rparr>"
    by (simp add: languages_response_def available_languages_described [OF assms(8)]
        metadata_fields_def)
  finally show ?thesis
    using assms(1,2) by (simp add: get_captions_except)
qed

lemma example_language_fields [simp]: "has_language_fields (example_track code name)"
  by (simp add: has_language_fields_def example_track_def field_def)

lemma example_described [simp]:
  "described_language (example_track code name) =
     JObj [(''languageCode'', JStr code), (''name'', JStr name)]"
  by (simp add: described_language_def example_track_def field_def)

theorem available_languages_listed_witness:
  "map_of (args (captions_request [] [(''video_id'', ''abc123'')])) ''language'' = None \<and>
   list_all has_language_fields example_tracks \<and>
   get_captions example_world (captions_request [] [(''video_id'', ''abc123'')]) =
     (\<lparr>status = 200,
       body = JObj [(''video_id'', JStr ''abc123''),
                    (''video_title'', JStr ''A talk''),
                    (''thumbnail'', JStr ''https://img.example/large.jpg''),
                    (''channel_name'', JStr ''A channel''),
                    (''channel_logo'', JStr ''No Channel Logo Available''),
                    (''available_languages'', JArr
                       [JObj [(''languageCode'', JStr ''en''), (''name'', JStr ''English'')],
                        JObj [(''languageCode'', JStr ''fr''), (''name'', JStr ''French'')],
                        JObj [(''languageCode'', JStr ''de''), (''name'', JStr ''German'')]])]\<rparr>,
      [])"
proof -
  let ?r = "captions_request [] [(''video_id'', ''abc123'')]"
  have l: "map_of (args ?r) ''language'' = None"
    by (simp add: captions_request_def)
  have all: "\<forall>t \<in> set example_tracks. has_language_fields t"
    by (simp add: example_tracks_def)
  have "get_captions example_world ?r =
     (\<lparr>status = 200,
       body = JObj [(''video_id'', JStr ''abc123''),
                    (''video_title'', video_title example_metadata),
                    (''thumbnail'', thumbnail example_metadata),
                    (''channel_name'', channel_name example_metadata),
                    (''channel_logo'', channel_logo example_metadata),
                    (''available_languages'', JArr (map described_language example_tracks))]\<rparr>, [])"
    by (rule available_languages_listed [where pd = example_player_data, OF _ _ _ _ _ _ _ all])
       (simp_all add: captions_request_def)
  then have "get_captions example_world ?r =
     (\<lparr>status = 200,
       body = JObj [(''video_id'', JStr ''abc123''),
                    (''video_title'', JStr ''A talk''),
                    (''thumbnail'', JStr ''https://img.example/large.jpg''),
                    (''channel_name'', JStr ''A channel''),
                    (''channel_logo'', JStr ''No Channel Logo Available''),
                    (''available_languages'', JArr
                       [JObj [(''languageCode'', JStr ''en''), (''name'', JStr ''English'')],
                        JObj [(''languageCode'', JStr ''fr''), (''name'', JStr ''French'')],
                        JObj [(''languageCode'', JStr ''de''), (''name'', JStr ''German'')]])]\<rparr>,
      [])"
    by (simp add: example_metadata_def example_tracks_def)
  with l all show ?thesis
    by (simp add: list_all_iff)
qed

text \<open>
  Claim C6 as stated fails: a response whose non-empty list of caption tracks holds a
  track without a language code is answered with the error of status 500, not with a
  list of languages.
\<close>

theorem available_languages_listed_counterexample:
  "caption_tracks example_nameless_data =
     Inr (JArr [JObj [(''baseUrl'', JStr ''https://captions.example/en'')]]) \<and>
   get_captions (example_world\<lparr>player := \<lambda>video_id. Inr example_nameless_data\<rparr>)
       (captions_request [] [(''video_id'', ''abc123'')]) =
     (\<lparr>status = 500, body = JObj [(''error'', JStr ([CHR 0x27] @ ''languageCode'' @ [CHR 0x27]))]\<rparr>,
      [''Error while fetching captions for video_id abc123: '' @ [CHR 0x27] @ ''languageCode''
         @ [CHR 0x27]])"
proof -
  let ?w = "example_world\<lparr>player := \<lambda>video_id. Inr example_nameless_data\<rparr>"
  let ?r = "captions_request [] [(''video_id'', ''abc123'')]"
  have c: "caption_tracks example_nameless_data =
     Inr (JArr [JObj [(''baseUrl'', JStr ''https://captions.example/en'')]])"
    by (simp add: caption_tracks_def example_nameless_data_def)
  have m: "video_metadata ?w example_nameless_data =
      Inr \<lparr>video_title = JStr ''Unknown Title'', thumbnail = JStr ''No Thumbnail Available'',
           channel_name = JStr ''Unknown Channel'',
           channel_logo = JStr ''No Channel Logo Available''\<rparr>"
    by (simp add: video_metadata_def example_nameless_data_def last_url_def)
  have "get_captions_try ?w ''abc123'' None (timestamps_flag ?r) =
      Inl (KeyError (JStr ''languageCode''))"
    by (simp add: get_captions_try_def m c languages_response_def)
  moreover have "exc_str ?w (KeyError (JStr ''languageCode'')) =
      [CHR 0x27] @ ''languageCode'' @ [CHR 0x27]"
    by (simp add: example_world_def example_str_def)
  ultimately have "get_captions ?w ?r =
     (\<lparr>status = 500, body = JObj [(''error'', JStr ([CHR 0x27] @ ''languageCode'' @ [CHR 0x27]))]\<rparr>,
      [''Error while fetching captions for video_id abc123: '' @ [CHR 0x27] @ ''languageCode''
         @ [CHR 0x27]])"
    by (simp add: get_captions_except [where vid = "''abc123''"] captions_request_def)
  with c show ?thesis by simp
qed

section \<open>Extraction from the player response\<close>

lemma py_get_dict:
  "dicts_on x (k # ks) \<Longrightarrow> py_get x k d = Inr (field_or x [k] d)"
  by (cases x) (auto simp: field_or_def field_def split: option.splits)

lemma dicts_on_empty [simp]: "dicts_on (JObj []) ks"
  by (cases ks) simp_all

lemma last_url_Some:
  "url_of_last w xs dflt = Some v \<Longrightarrow> last_url w xs dflt = Inr v"
  by (cases xs) (auto simp: url_of_last_def last_url_def subscript_field split: if_splits)

lemma last_url_None:
  "url_of_last w xs dflt = None \<Longrightarrow> \<exists>e. last_url w xs dflt = Inl e"
proof (cases xs)
  case (JArr ys)
  assume n: "url_of_last w xs dflt = None"
  with JArr have ys: "ys \<noteq> []" and f: "field (last ys) ''url'' = None"
    by (auto simp: url_of_last_def split: if_splits)
  from f have "\<exists>e. subscript (last ys) ''url'' = Inl e"
    by (cases "last ys") (auto simp: field_def)
  with JArr ys show ?thesis
    by (auto simp: last_url_def)
qed (auto simp: url_of_last_def last_url_def split: if_splits)

lemma available_languages_missing:
  "\<not> has_language_fields t \<Longrightarrow> \<exists>e. available_languages (t # ts) = Inl e"
proof (cases t)
  case (JObj kvs)
  assume n: "\<not> has_language_fields t"
  show ?thesis
  proof (cases "map_of kvs ''languageCode''")
    case None
    with JObj show ?thesis by simp
  next
    case code: (Some code)
    show ?thesis
    proof (cases "map_of kvs ''name''")
      case None
      with JObj code show ?thesis by simp
    next
      case (Some nm)
      with n JObj code have "field nm ''simpleText'' = None"
        by (simp add: has_language_fields_def field_def)
      then have "\<exists>e. subscript nm ''simpleText'' = Inl e"
        by (cases nm) (auto simp: field_def)
      with JObj code Some show ?thesis by auto
    qed
  qed
qed simp_all

lemma field_or_Nil [simp]: "field_or x [] d = x"
  by (simp add: field_or_def)

lemma dicts_on_reached:
  "dicts_on x (ks @ k # ks') \<Longrightarrow> dicts_on (field_or x ks (JObj [])) [k']"
proof (induction ks arbitrary: x)
  case Nil
  then show ?case
    by (cases x) (auto split: option.splits)
next
  case (Cons a ks)
  from Cons.prems obtain kvs where x: "x = JObj kvs"
    by (cases x) auto
  show ?case
  proof (cases "map_of kvs a")
    case None
    with x show ?thesis
      by (simp add: field_or_def field_def)
  next
    case (Some v)
    with x Cons.prems have "dicts_on v (ks @ k # ks')"
      by simp
    then have "dicts_on (field_or v ks (JObj [])) [k']"
      by (rule Cons.IH)
    moreover have "field_or x (a # ks) (JObj []) = field_or v ks (JObj [])"
      using x Some by (simp add: field_or_def field_def)
    ultimately show ?thesis by simp
  qed
qed

lemma field_empty_path: "ks \<noteq> [] \<Longrightarrow> field_path (JObj []) ks = None"
  by (cases ks) (simp_all add: field_def)

lemma field_or_append:
  "ks' \<noteq> [] \<Longrightarrow> field_or (field_or x ks (JObj [])) ks' d = field_or x (ks @ ks') d"
proof (induction ks arbitrary: x)
  case Nil
  then show ?case by simp
next
  case (Cons k ks)
  show ?case
  proof (cases "field x k")
    case None
    with Cons.prems show ?thesis
      by (simp add: field_or_def field_empty_path)
  next
    case (Some v)
    then have "field_or x (k # ks) (JObj []) = field_or v ks (JObj [])"
      and "field_or x ((k # ks) @ ks') d = field_or v (ks @ ks') d"
      by (simp_all add: field_or_def)
    with Cons show ?thesis by simp
  qed
qed

lemma py_get_reached:
  "dicts_on x [k] \<Longrightarrow> py_get x k d = Inr (field_or x [k] d)"
  by (rule py_get_dict)

lemma video_metadata_present:
  assumes d1: "dicts_on pd [''videoDetails'', ''thumbnail'', ''thumbnails'']"
    and d2: "dicts_on pd [''videoDetails'', ''channelThumbnailSupportedRenderers'',
                ''channelThumbnailWithLinkRenderer'', ''thumbnail'', ''thumbnails'']"
    and u1: "url_of_last w (field_or pd [''videoDetails'', ''thumbnail'', ''thumbnails''] (JArr []))
               ''No Thumbnail Available'' = Some thumb"
    and u2: "url_of_last w
               (field_or pd [''videoDetails'', ''channelThumbnailSupportedRenderers'',
                  ''channelThumbnailWithLinkRenderer'', ''thumbnail'', ''thumbnails''] (JArr []))
               ''No Channel Logo Available'' = Some logo"
  shows "video_metadata w pd =
           Inr \<lparr>video_title = field_or pd [''videoDetails'', ''title''] (JStr ''Unknown Title''),
                thumbnail = thumb,
                channel_name = field_or pd [''videoDetails'', ''author''] (JStr ''Unknown Channel''),
                channel_logo = logo\<rparr>"
proof -
  have a0: "\<And>k'. dicts_on pd [k']"
    using dicts_on_reached [of pd "[]"] d1 by simp
  have a1: "\<And>k'. dicts_on (field_or pd [''videoDetails''] (JObj [])) [k']"
    using dicts_on_reached [of pd "[''videoDetails'']"] d1 by simp
  have a2: "\<And>k'. dicts_on (field_or pd [''videoDetails'', ''thumbnail''] (JObj [])) [k']"
    using dicts_on_reached [of pd "[''videoDetails'', ''thumbnail'']" _ "[]"] d1 by simp
  have b2: "\<And>k'. dicts_on (field_or pd
       [''videoDetails'', ''channelThumbnailSupportedRenderers''] (JObj [])) [k']"
    using dicts_on_reached [of pd "[''videoDetails'', ''channelThumbnailSupportedRenderers'']"] d2
    by simp
  have b3: "\<And>k'. dicts_on (field_or pd
       [''videoDetails'', ''channelThumbnailSupportedRenderers'',
        ''channelThumbnailWithLinkRenderer''] (JObj [])) [k']"
    using dicts_on_reached [of pd "[''videoDetails'', ''channelThumbnailSupportedRenderers'',
        ''channelThumbnailWithLinkRenderer'']"] d2
    by simp
  have b4: "\<And>k'. dicts_on (field_or pd
       [''videoDetails'', ''channelThumbnailSupportedRenderers'',
        ''channelThumbnailWithLinkRenderer'', ''thumbnail''] (JObj [])) [k']"
    using dicts_on_reached [of pd "[''videoDetails'', ''channelThumbnailSupportedRenderers'',
        ''channelThumbnailWithLinkRenderer'', ''thumbnail'']" _ "[]"] d2
    by simp
  show ?thesis
    by (simp add: video_metadata_def py_get_reached field_or_append a0 a1 a2 b2 b3 b4
        last_url_Some [OF u1] last_url_Some [OF u2] del: dicts_on.simps)
qed

lemma caption_tracks_present:
  assumes "dicts_on pd [''captions'', ''playerCaptionsTracklistRenderer'', ''captionTracks'']"
  shows "caption_tracks pd =
     Inr (field_or pd [''captions'', ''playerCaptionsTracklistRenderer'', ''captionTracks'']
            (JArr []))"
proof -
  have a0: "\<And>k'. dicts_on pd [k']"
    using dicts_on_reached [of pd "[]"] assms by simp
  have a1: "\<And>k'. dicts_on (field_or pd [''captions''] (JObj [])) [k']"
    using dicts_on_reached [of pd "[''captions'']"] assms by simp
  have a2: "\<And>k'. dicts_on (field_or pd [''captions'', ''playerCaptionsTracklistRenderer'']
      (JObj [])) [k']"
    using dicts_on_reached [of pd "[''captions'', ''playerCaptionsTracklistRenderer'']" _ "[]"]
      assms by simp
  show ?thesis
    by (simp add: caption_tracks_def py_get_reached field_or_append a0 a1 a2 del: dicts_on.simps)
qed

text \<open>
  Claim C7, amended. Extraction is total on missing keys and on missing or empty lists.
  When every value that is present on one of the three \<^verbatim>\<open>get\<close> paths is a dictionary,
  the title, the channel name and the caption tracks are the field when its key is
  present and the default (\<^verbatim>\<open>Unknown Title\<close>, \<^verbatim>\<open>Unknown Channel\<close>, the empty list)
  otherwise; the thumbnail and the channel logo are the default
  (\<^verbatim>\<open>No Thumbnail Available\<close>, \<^verbatim>\<open>No Channel Logo Available\<close>) when their list is missing or
  empty, and the \<^verbatim>\<open>url\<close> of the last item when that item has one. Not every shape is
  covered: \<^verbatim>\<open>get\<close> on a value that is not a dictionary raises \<^verbatim>\<open>AttributeError\<close>, a
  non-empty list whose last item has no \<^verbatim>\<open>url\<close> raises (\<^verbatim>\<open>KeyError\<close> when the item is a
  dictionary), and so does the enumeration of the languages for a caption track without
  \<^verbatim>\<open>languageCode\<close> (\<^verbatim>\<open>KeyError\<close> when the track is a dictionary) or without a \<^verbatim>\<open>name\<close>
  that has a \<^verbatim>\<open>simpleText\<close>.
\<close>

theorem extraction_of_present_keys:
  "(dicts_on pd [''videoDetails'', ''thumbnail'', ''thumbnails''] \<and>
    dicts_on pd [''videoDetails'', ''channelThumbnailSupportedRenderers'',
                 ''channelThumbnailWithLinkRenderer'', ''thumbnail'', ''thumbnails''] \<and>
    dicts_on pd [''captions'', ''playerCaptionsTracklistRenderer'', ''captionTracks''] \<and>
    url_of_last w (field_or pd [''videoDetails'', ''thumbnail'', ''thumbnails''] (JArr []))
      ''No Thumbnail Available'' = Some thumb \<and>
    url_of_last w
      (field_or pd [''videoDetails'', ''channelThumbnailSupportedRenderers'',
                    ''channelThumbnailWithLinkRenderer'', ''thumbnail'', ''thumbnails''] (JArr []))
      ''No Channel Logo Available'' = Some logo \<longrightarrow>
    video_metadata w pd =
      Inr \<lparr>video_title = field_or pd [''videoDetails'', ''title''] (JStr ''Unknown Title''),
           thumbnail = thumb,
           channel_name = field_or pd [''videoDetails'', ''author''] (JStr ''Unknown Channel''),
           channel_logo = logo\<rparr> \<and>
    caption_tracks pd =
      Inr (field_or pd [''captions'', ''playerCaptionsTracklistRenderer'', ''captionTracks'']
             (JArr []))) \<and>
   (\<not> truthy w xs \<longrightarrow> last_url w xs dflt = Inr (JStr dflt)) \<and>
   (url_of_last w xs dflt = None \<longrightarrow> (\<exists>e. last_url w xs dflt = Inl e)) \<and>
   (\<not> has_language_fields t \<longrightarrow> (\<exists>e. available_languages (t # ts) = Inl e)) \<and>
   ((\<forall>kvs. x \<noteq> JObj kvs) \<longrightarrow> py_get x k d = Inl (AttributeError x ''get'')) \<and>
   (ys \<noteq> [] \<and> last ys = JObj item \<and> map_of item ''url'' = None \<longrightarrow>
      last_url w (JArr ys) dflt = Inl (KeyError (JStr ''url''))) \<and>
   (map_of track ''languageCode'' = None \<longrightarrow>
      available_languages (JObj track # ts) = Inl (KeyError (JStr ''languageCode'')))"
proof (intro conjI impI)
  assume a: "dicts_on pd [''videoDetails'', ''thumbnail'', ''thumbnails''] \<and>
    dicts_on pd [''videoDetails'', ''channelThumbnailSupportedRenderers'',
                 ''channelThumbnailWithLinkRenderer'', ''thumbnail'', ''thumbnails''] \<and>
    dicts_on pd [''captions'', ''playerCaptionsTracklistRenderer'', ''captionTracks''] \<and>
    url_of_last w (field_or pd [''videoDetails'', ''thumbnail'', ''thumbnails''] (JArr []))
      ''No Thumbnail Available'' = Some thumb \<and>
    url_of_last w
      (field_or pd [''videoDetails'', ''channelThumbnailSupportedRenderers'',
                    ''channelThumbnailWithLinkRenderer'', ''thumbnail'', ''thumbnails''] (JArr []))
      ''No Channel Logo Available'' = Some logo"
  from a show "video_metadata w pd =
      Inr \<lparr>video_title = field_or pd [''videoDetails'', ''title''] (JStr ''Unknown Title''),
           thumbnail = thumb,
           channel_name = field_or pd [''videoDetails'', ''author''] (JStr ''Unknown Channel''),
           channel_logo = logo\<rparr>"
    by (intro video_metadata_present) (elim conjE, assumption)+
  from a show "caption_tracks pd =
      Inr (field_or pd [''captions'', ''playerCaptionsTracklistRenderer'', ''captionTracks'']
             (JArr []))"
    by (intro caption_tracks_present) (elim conjE, assumption)
next
  assume "\<not> truthy w xs"
  then show "last_url w xs dflt = Inr (JStr dflt)"
    by (simp add: last_url_def)
next
  assume "url_of_last w xs dflt = None"
  then show "\<exists>e. last_url w xs dflt = Inl e"
    by (rule last_url_None)
next
  assume "\<not> has_language_fields t"
  then show "\<exists>e. available_languages (t # ts) = Inl e"
    by (rule available_languages_missing)
next
  assume "\<forall>kvs. x \<noteq> JObj kvs"
  then show "py_get x k d = Inl (AttributeError x ''get'')"
    by (cases x) simp_all
next
  assume "ys \<noteq> [] \<and> last ys = JObj item \<and> map_of item ''url'' = None"
  then show "last_url w (JArr ys) dflt = Inl (KeyError (JStr ''url''))"
    by (simp add: last_url_def)
next
  assume "map_of track ''languageCode'' = None"
  then show "available_languages (JObj track # ts) = Inl (KeyError (JStr ''languageCode''))"
    by simp
qed

theorem extraction_of_present_keys_witness:
  "video_metadata example_world (JObj []) =
     Inr \<lparr>video_title = JStr ''Unknown Title'', thumbnail = JStr ''No Thumbnail Available'',
          channel_name = JStr ''Unknown Channel'',
          channel_logo = JStr ''No Channel Logo Available''\<rparr> \<and>
   caption_tracks (JObj [] :: string json) = Inr (JArr []) \<and>
   video_metadata example_world example_player_data =
     Inr \<lparr>video_title = JStr ''A talk'', thumbnail = JStr ''https://img.example/large.jpg'',
          channel_name = JStr ''A channel'',
          channel_logo = JStr ''No Channel Logo Available''\<rparr> \<and>
   caption_tracks example_player_data = Inr (JArr example_tracks)"
proof -
  let ?p1 = "[''videoDetails'', ''thumbnail'', ''thumbnails'']"
  let ?p2 = "[''videoDetails'', ''channelThumbnailSupportedRenderers'',
                 ''channelThumbnailWithLinkRenderer'', ''thumbnail'', ''thumbnails'']"
  let ?p3 = "[''captions'', ''playerCaptionsTracklistRenderer'', ''captionTracks'']"
  let ?e = "JObj [] :: string json"
  have e: "dicts_on ?e ?p1 \<and> dicts_on ?e ?p2 \<and> dicts_on ?e ?p3 \<and>
      url_of_last example_world (field_or ?e ?p1 (JArr [])) ''No Thumbnail Available'' =
        Some (JStr ''No Thumbnail Available'') \<and>
      url_of_last example_world (field_or ?e ?p2 (JArr [])) ''No Channel Logo Available'' =
        Some (JStr ''No Channel Logo Available'')"
    by (simp add: field_or_def field_def url_of_last_def)
  have 1: "video_metadata example_world ?e =
      Inr \<lparr>video_title = field_or ?e [''videoDetails'', ''title''] (JStr ''Unknown Title''),
           thumbnail = JStr ''No Thumbnail Available'',
           channel_name = field_or ?e [''videoDetails'', ''author''] (JStr ''Unknown Channel''),
           channel_logo = JStr ''No Channel Logo Available''\<rparr> \<and>
      caption_tracks ?e = Inr (field_or ?e ?p3 (JArr []))"
    by (rule extraction_of_present_keys [THEN conjunct1, THEN mp, OF e])
  let ?d = example_player_data
  have d: "dicts_on ?d ?p1 \<and> dicts_on ?d ?p2 \<and> dicts_on ?d ?p3 \<and>
      url_of_last example_world (field_or ?d ?p1 (JArr [])) ''No Thumbnail Available'' =
        Some (JStr ''https://img.example/large.jpg'') \<and>
      url_of_last example_world (field_or ?d ?p2 (JArr [])) ''No Channel Logo Available'' =
        Some (JStr ''No Channel Logo Available'')"
    by (simp add: example_player_data_def field_or_def field_def url_of_last_def)
  have 2: "video_metadata example_world ?d =
      Inr \<lparr>video_title = field_or ?d [''videoDetails'', ''title''] (JStr ''Unknown Title''),
           thumbnail = JStr ''https://img.example/large.jpg'',
           channel_name = field_or ?d [''videoDetails'', ''author''] (JStr ''Unknown Channel''),
           channel_logo = JStr ''No Channel Logo Available''\<rparr> \<and>
      caption_tracks ?d = Inr (field_or ?d ?p3 (JArr []))"
    by (rule extraction_of_present_keys [THEN conjunct1, THEN mp, OF d])
  have v: "field_or ?e [''videoDetails'', ''title''] (JStr ''Unknown Title'') = JStr ''Unknown Title''"
    "field_or ?e [''videoDetails'', ''author''] (JStr ''Unknown Channel'') = JStr ''Unknown Channel''"
    "field_or ?e ?p3 (JArr []) = JArr []"
    "field_or ?d [''videoDetails'', ''title''] (JStr ''Unknown Title'') = JStr ''A talk''"
    "field_or ?d [''videoDetails'', ''author''] (JStr ''Unknown Channel'') = JStr ''A channel''"
    "field_or ?d ?p3 (JArr []) = JArr example_tracks"
    by (simp_all add: example_player_data_def field_or_def field_def)
  from 1 2 show ?thesis
    by (simp only: v)
qed

text \<open>
  Claim C7 as stated fails: a thumbnail list whose last item has no \<^verbatim>\<open>url\<close>, a caption
  track without a language code, and a \<^verbatim>\<open>videoDetails\<close> that is \<^verbatim>\<open>null\<close> each raise an
  exception.
\<close>

theorem extraction_of_present_keys_counterexample:
  "video_metadata example_world
     (JObj [(''videoDetails'', JObj [(''thumbnail'', JObj [(''thumbnails'',
        JArr [JObj [(''width'', JInt 120)]])])])]) = Inl (KeyError (JStr ''url'')) \<and>
   available_languages [JObj [(''baseUrl'', JStr ''https://captions.example/en'')] :: string json] =
     Inl (KeyError (JStr ''languageCode'')) \<and>
   video_metadata example_world (JObj [(''videoDetails'', JNull)]) =
     Inl (AttributeError JNull ''get'')"
  by (simp add: video_metadata_def last_url_def)

section \<open>One request, one transformation\<close>

lemma truthy_player [simp]: "truthy (w\<lparr>player := p\<rparr>) x = truthy w x"
  by (cases x) simp_all

lemma last_url_player [simp]: "last_url (w\<lparr>player := p\<rparr>) xs d = last_url w xs d"
  by (simp add: last_url_def)

lemma video_metadata_player [simp]:
  "video_metadata (w\<lparr>player := p\<rparr>) pd = video_metadata w pd"
  by (simp add: video_metadata_def)

lemma attrib_float_player [simp]:
  "attrib_float (w\<lparr>player := p\<rparr>) e name = attrib_float w e name"
  by (simp add: attrib_float_def cong: option.case_cong)

lemma parse_elements_player [simp]:
  "parse_elements (w\<lparr>player := p\<rparr>) es = parse_elements w es"
  by (induction es) simp_all

lemma selected_response_player [simp]:
  "selected_response (w\<lparr>player := p\<rparr>) vid md caps lang ts =
   selected_response w vid md caps lang ts"
  by (simp add: selected_response_def parsed_captions_def cong: option.case_cong if_cong)

lemma get_captions_try_player:
  "p vid = player w vid \<Longrightarrow>
   get_captions_try (w\<lparr>player := p\<rparr>) vid sl ts = get_captions_try w vid sl ts"
  by (simp add: get_captions_try_def cong: option.case_cong if_cong)

lemma get_captions_player:
  assumes "\<forall>vid. map_of (args req) ''video_id'' = Some vid \<longrightarrow> p vid = player w vid"
  shows "get_captions (w\<lparr>player := p\<rparr>) req = get_captions w req"
proof (cases "map_of (args req) ''video_id''")
  case None
  then show ?thesis by (simp add: get_captions_def)
next
  case (Some vid)
  with assms have "p vid = player w vid" by simp
  then have "get_captions_try (w\<lparr>player := p\<rparr>) vid (map_of (args req) ''language'')
      (timestamps_flag req) =
    get_captions_try w vid (map_of (args req) ''language'') (timestamps_flag req)"
    by (rule get_captions_try_player)
  with Some show ?thesis by (simp add: get_captions_def cong: sum.case_cong)
qed

lemma worlds_agree:
  fixes w1 w2 :: "'f world"
  assumes "requests_get w1 = requests_get w2" and "fromstring w1 = fromstring w2"
    and "float_of_str w1 = float_of_str w2" and "float_of_zero w1 = float_of_zero w2"
    and "float_truthy w1 = float_truthy w2" and "exc_str w1 = exc_str w2"
  shows "w2 = w1\<lparr>player := player w2\<rparr>"
  using assms by simp

lemma reply_ignores_log:
  "API_KEY s1 = API_KEY s2 \<Longrightarrow> fst (wsgi_app w s1 req) = fst (wsgi_app w s2 req)"
  by (simp add: wsgi_app_def full_dispatch_request_def enforce_api_key_def validate_api_key_def
      split: prod.splits)

lemma wsgi_app_key [simp]: "API_KEY (snd (wsgi_app w srv req)) = API_KEY srv"
  by (simp add: wsgi_app_def split: prod.splits)

lemma dispatch_request_worlds:
  "get_captions w1 req = get_captions w2 req \<Longrightarrow> dispatch_request w1 req = dispatch_request w2 req"
  by (auto simp: dispatch_request_def view_functions_def
      split: option.splits prod.splits endpoint.splits)

lemma wsgi_app_worlds:
  assumes "get_captions w1 req = get_captions w2 req" and "API_KEY s1 = API_KEY s2"
  shows "fst (wsgi_app w1 s1 req) = fst (wsgi_app w2 s2 req)"
proof -
  have "fst (wsgi_app w1 s1 req) = fst (wsgi_app w1 s2 req)"
    using assms(2) by (rule reply_ignores_log)
  also have "\<dots> = fst (wsgi_app w2 s2 req)"
    using dispatch_request_worlds [OF assms(1)]
    by (simp add: wsgi_app_def full_dispatch_request_def split: option.splits)
  finally show ?thesis .
qed

text \<open>
  Claim C10. The response of \<^verbatim>\<open>get_captions\<close> is a function of the request and of the
  answers of the external services: two worlds that give the same answer to the
  metadata call for the requested video and that agree on the download, the XML parser,
  the float conversions and the messages of exceptions produce the same response and the
  same log lines, and so does the application for two servers with the same
  \<^verbatim>\<open>API_KEY\<close>. Handling a request leaves \<^verbatim>\<open>API_KEY\<close> as it was; the only thing it adds is
  log lines, and the answer to a later request does not depend on them.
\<close>

theorem one_shot_transformation:
  fixes w1 w2 :: "'f world"
  shows
   "((\<forall>vid. map_of (args req) ''video_id'' = Some vid \<longrightarrow> player w1 vid = player w2 vid) \<and>
     requests_get w1 = requests_get w2 \<and> fromstring w1 = fromstring w2 \<and>
     float_of_str w1 = float_of_str w2 \<and> float_of_zero w1 = float_of_zero w2 \<and>
     float_truthy w1 = float_truthy w2 \<and> exc_str w1 = exc_str w2 \<longrightarrow>
       get_captions w1 req = get_captions w2 req \<and>
       (API_KEY s1 = API_KEY s2 \<longrightarrow> fst (wsgi_app w1 s1 req) = fst (wsgi_app w2 s2 req))) \<and>
    API_KEY (snd (wsgi_app w1 srv req)) = API_KEY srv \<and>
    fst (wsgi_app w1 (snd (wsgi_app w1 srv earlier)) req) = fst (wsgi_app w1 srv req)"
proof (intro conjI impI)
  assume a: "(\<forall>vid. map_of (args req) ''video_id'' = Some vid \<longrightarrow> player w1 vid = player w2 vid) \<and>
     requests_get w1 = requests_get w2 \<and> fromstring w1 = fromstring w2 \<and>
     float_of_str w1 = float_of_str w2 \<and> float_of_zero w1 = float_of_zero w2 \<and>
     float_truthy w1 = float_truthy w2 \<and> exc_str w1 = exc_str w2"
  then have "w2 = w1\<lparr>player := player w2\<rparr>"
    by (intro worlds_agree) simp_all
  moreover have "get_captions (w1\<lparr>player := player w2\<rparr>) req = get_captions w1 req"
    using a by (intro get_captions_player) simp
  ultimately show g: "get_captions w1 req = get_captions w2 req"
    by simp
  {
    assume "API_KEY s1 = API_KEY s2"
    with g show "fst (wsgi_app w1 s1 req) = fst (wsgi_app w2 s2 req)"
      by (rule wsgi_app_worlds)
  }
next
  show "API_KEY (snd (wsgi_app w1 srv req)) = API_KEY srv"
    by simp
next
  show "fst (wsgi_app w1 (snd (wsgi_app w1 srv earlier)) req) = fst (wsgi_app w1 srv req)"
    by (rule reply_ignores_log) simp
qed

theorem one_shot_transformation_witness:
  "player example_world ''zzz'' \<noteq> player example_other_world ''zzz'' \<and>
   player example_world ''abc123'' = player example_other_world ''abc123'' \<and>
   get_captions example_world
       (captions_request [(''x-api-key'', ''secret'')]
          [(''video_id'', ''abc123''), (''language'', ''en'')]) =
     get_captions example_other_world
       (captions_request [(''x-api-key'', ''secret'')]
          [(''video_id'', ''abc123''), (''language'', ''en'')]) \<and>
   fst (wsgi_app example_world example_server
       (captions_request [(''x-api-key'', ''secret'')]
          [(''video_id'', ''abc123''), (''language'', ''en'')])) =
     fst (wsgi_app example_other_world (example_server\<lparr>log := [''an earlier line'']\<rparr>)
       (captions_request [(''x-api-key'', ''secret'')]
          [(''video_id'', ''abc123''), (''language'', ''en'')]))"
proof -
  let ?r = "captions_request [(''x-api-key'', ''secret'')]
          [(''video_id'', ''abc123''), (''language'', ''en'')]"
  let ?s2 = "example_server\<lparr>log := [''an earlier line'']\<rparr>"
  have p: "player example_world ''zzz'' \<noteq> player example_other_world ''zzz''"
    "player example_world ''abc123'' = player example_other_world ''abc123''"
    by (simp_all add: example_other_world_def example_world_def)
  have a: "(\<forall>vid. map_of (args ?r) ''video_id'' = Some vid \<longrightarrow>
        player example_world vid = player example_other_world vid) \<and>
      requests_get example_world = requests_get example_other_world \<and>
      fromstring example_world = fromstring example_other_world \<and>
      float_of_str example_world = float_of_str example_other_world \<and>
      float_of_zero example_world = float_of_zero example_other_world \<and>
      float_truthy example_world = float_truthy example_other_world \<and>
      exc_str example_world = exc_str example_other_world"
    by (simp add: example_other_world_def captions_request_def example_world_def)
  have k: "API_KEY example_server = API_KEY ?s2"
    by simp
  note t = one_shot_transformation [of ?r example_world example_other_world example_server ?s2,
      THEN conjunct1, THEN mp, OF a]
  from t have g: "get_captions example_world ?r = get_captions example_other_world ?r"
    by (rule conjunct1)
  from t k have h: "fst (wsgi_app example_world example_server ?r) =
      fst (wsgi_app example_other_world ?s2 ?r)"
    by (rule conjunct2 [THEN mp])
  from p g h show ?thesis by simp
qed

section \<open>The routes\<close>







end
